theory Spec2Isabelle
  imports Main "HOL-Library.Word" "HOL-Library.Sublist"
begin

section \<open>The logbook: data model\<close>

text \<open>
  The embedding follows the Go package \<open>logbook\<close> (the file that declares \<open>Book\<close>).
  Go's \<open>int64\<close> is a \<open>64 word\<close>; Go's \<open>int\<close> is taken to be 64 bits wide, as on the
  platforms the program is built for, and is an \<open>int\<close> kept in range by \<open>wrap64\<close>
  wherever the code adds to it. \<open>uint32\<close> is a \<open>32 word\<close>.
\<close>

definition wrap64 :: "int \<Rightarrow> int" where
  "wrap64 x = sint (word_of_int x :: 64 word)"

text \<open>The model constants, \<open>iota\<close> starting at 0.\<close>

definition AuthorModel :: "32 word" where "AuthorModel = 0"
definition DatasetModel :: "32 word" where "DatasetModel = 1"
definition BranchModel :: "32 word" where "BranchModel = 2"
definition CommitModel :: "32 word" where "CommitModel = 3"
definition PushModel :: "32 word" where "PushModel = 4"
definition RunModel :: "32 word" where "RunModel = 5"
definition ACLModel :: "32 word" where "ACLModel = 6"

definition DefaultBranchName :: string where
  "DefaultBranchName = ''main''"

definition runIDRelPrefix :: string where
  "runIDRelPrefix = ''runID:''"

text \<open>
  Modelled from the spec: \<open>oplog.OpType\<close>, the enum \<open>{Init, Amend, Remove}\<close>, and
  \<open>oplog.Op\<close> with the fields of the specification's operation table. Both belong to
  the package \<open>oplog\<close>, of which the book is a client.
\<close>

datatype OpType = OpTypeInit | OpTypeAmend | OpTypeRemove

record Op =
  Type :: OpType
  Model :: "32 word"
  Ref :: string
  Prev :: string
  Relations :: "string list"
  Name :: string
  AuthorID :: string
  Timestamp :: "64 word"
  Size :: "64 word"
  Note :: string

text \<open>
  Modelled from the spec: \<open>oplog.Log\<close>, an ordered sequence of operations plus child
  logs. The signature is left out: verification is a parameter where it is used.
\<close>

datatype Log = Log (Ops: "Op list") (Logs: "Log list")

text \<open>The zero value of \<open>oplog.Op\<close> apart from the type, which every literal sets.\<close>

definition emptyOp :: "OpType \<Rightarrow> 32 word \<Rightarrow> Op" where
  "emptyOp t m = \<lparr> Type = t, Model = m, Ref = [], Prev = [], Relations = [], Name = [],
     AuthorID = [], Timestamp = 0, Size = 0, Note = [] \<rparr>"

text \<open>
  Errors are values. The sentinel errors of the package are constructors of their own; an
  error made with \<open>fmt.Errorf\<close> is \<open>ErrOther\<close> with its message (format verbs
  left unexpanded); a run-time panic is \<open>Panic\<close>. \<open>CapacityDependent\<close> marks the one
  place where Go's result is not determined by the values at hand: a slice expression
  \<open>s[:n]\<close> with \<open>len(s) < n\<close> panics when \<open>n\<close> exceeds the capacity and otherwise
  re-exposes elements of the backing array, and the capacity is chosen by the run-time
  system.
\<close>

datatype error =
    ErrNoLogbook
  | ErrNotFound
  | OplogErrNotFound
  | ErrLogTooShort
  | ErrAccessDenied
  | ErrRefNotFound
  | ErrOther string
  | Panic string
  | CapacityDependent

text \<open>
  \<open>dsref.Ref\<close> and \<open>dsref.VersionInfo\<close>, with the fields this package reads or writes.
  \<open>time.Unix(0, ns)\<close> is kept as the nanosecond count \<open>ns\<close>.
\<close>

record Ref =
  refInitID :: string
  refUsername :: string
  refProfileID :: string
  refName :: string
  refPath :: string

record VersionInfo =
  viUsername :: string
  viProfileID :: string
  viName :: string
  viPath :: string
  viPublished :: bool
  viCommitTime :: "64 word"
  viBodySize :: int
  viCommitTitle :: string
  viRunID :: string
  viRunStatus :: string
  viRunDuration :: "64 word"

section \<open>The head path\<close>

text \<open>
  \<open>latestSavePath\<close> scans \<open>branchLog.Ops\<close> from the last index down to 0. The loop is
  a recursion over the reversed list with the counter \<open>removes\<close> as accumulator.
\<close>

fun latestSavePathLoop :: "Op list \<Rightarrow> int \<Rightarrow> string" where
  "latestSavePathLoop [] removes = []"
| "latestSavePathLoop (op # rest) removes =
     (if Model op = CommitModel then
        (case Type op of
           OpTypeRemove \<Rightarrow> latestSavePathLoop rest (wrap64 (removes + sint (Size op)))
         | _ \<Rightarrow>
             (let removes1 = (if removes > 0 then removes - 1 else removes)
              in if removes1 = 0 then Ref op else latestSavePathLoop rest removes1))
      else latestSavePathLoop rest removes)"

definition latestSavePath :: "Log \<Rightarrow> string" where
  "latestSavePath branchLog = latestSavePathLoop (rev (Ops branchLog)) 0"

section \<open>The commit list\<close>

fun commitOpRunIDLoop :: "string list \<Rightarrow> string" where
  "commitOpRunIDLoop [] = []"
| "commitOpRunIDLoop (str # rest) =
     (if prefix runIDRelPrefix str then drop (length runIDRelPrefix) str
      else commitOpRunIDLoop rest)"

definition commitOpRunID :: "Op \<Rightarrow> string" where
  "commitOpRunID op = commitOpRunIDLoop (Relations op)"

definition versionInfoFromOp :: "Ref \<Rightarrow> Op \<Rightarrow> VersionInfo" where
  "versionInfoFromOp ref op =
     \<lparr> viUsername = refUsername ref, viProfileID = refProfileID ref, viName = refName ref,
       viPath = Ref op, viPublished = False, viCommitTime = Timestamp op,
       viBodySize = sint (Size op), viCommitTitle = Note op, viRunID = [],
       viRunStatus = [], viRunDuration = 0 \<rparr>"

definition runItemFromOp :: "Ref \<Rightarrow> Op \<Rightarrow> VersionInfo" where
  "runItemFromOp ref op =
     \<lparr> viUsername = refUsername ref, viProfileID = refProfileID ref, viName = refName ref,
       viPath = [], viPublished = False, viCommitTime = Timestamp op,
       viBodySize = 0, viCommitTitle = [], viRunID = Ref op,
       viRunStatus = Note op, viRunDuration = Size op \<rparr>"

definition addCommitDetailsToRunItem :: "VersionInfo \<Rightarrow> Op \<Rightarrow> VersionInfo" where
  "addCommitDetailsToRunItem li op =
     li\<lparr> viCommitTime := Timestamp op, viCommitTitle := Note op,
        viBodySize := sint (Size op), viPath := Ref op \<rparr>"

text \<open>
  The loop \<open>for i := 1; i <= int(op.Size); i++ { refs[len(refs)-i].Published = b }\<close>.
  The index \<open>len(refs)-i\<close> is in range exactly when \<open>1 \<le> i \<le> len(refs)\<close>.
\<close>

function publishLoop :: "bool \<Rightarrow> int \<Rightarrow> nat \<Rightarrow> VersionInfo list \<Rightarrow> error + VersionInfo list" where
  "publishLoop b n i refs =
     (if int i \<le> n then
        (if 1 \<le> i \<and> i \<le> length refs
         then publishLoop b n (Suc i)
                (refs[length refs - i := (refs ! (length refs - i))\<lparr>viPublished := b\<rparr>])
         else Inl (Panic ''index out of range''))
      else Inr refs)"
  by pat_completeness auto
termination
  by (relation "measure (\<lambda>(b, n, i, refs). Suc (length refs) - i)") auto

declare publishLoop.simps [simp del]

text \<open>The slice expression \<open>refs[:n]\<close>.\<close>

definition sliceTo :: "VersionInfo list \<Rightarrow> int \<Rightarrow> error + VersionInfo list" where
  "sliceTo refs n =
     (if n < 0 then Inl (Panic ''slice bounds out of range'')
      else if n \<le> int (length refs) then Inr (take (nat n) refs)
      else Inl CapacityDependent)"

text \<open>
  One iteration of the loop over \<open>blog.Ops()\<close>; the state is \<open>refs\<close> and
  \<open>deleteAtEnd\<close>. In the collapsing branch \<open>len(refs)-int(op.Size)\<close> is written
  without wrap-around: since \<open>0 \<le> len(refs)\<close>, the subtraction overflows only for a
  negative size, where the unwrapped value exceeds \<open>len(refs)\<close> and the outcome is
  \<open>CapacityDependent\<close>, which covers the panic of the wrapped, negative bound.
\<close>

definition stepOp :: "Ref \<Rightarrow> bool \<Rightarrow> VersionInfo list \<times> int \<Rightarrow> Op \<Rightarrow> error + VersionInfo list \<times> int" where
  "stepOp ref collapseAllDeletes st op =
     (let refs = fst st; deleteAtEnd = snd st in
      if Model op = CommitModel then
        (case Type op of
           OpTypeInit \<Rightarrow>
             (let commitRunID = commitOpRunID op in
              if commitRunID \<noteq> [] \<and> length refs > 0 \<and> commitRunID = viRunID (last refs)
              then Inr (refs[length refs - 1 := addCommitDetailsToRunItem (last refs) op], deleteAtEnd)
              else Inr (refs @ [versionInfoFromOp ref op], deleteAtEnd))
         | OpTypeAmend \<Rightarrow>
             (if refs = [] then Inl (Panic ''index out of range'')
              else Inr (refs[length refs - 1 := versionInfoFromOp ref op], 0))
         | OpTypeRemove \<Rightarrow>
             (if collapseAllDeletes then
                (case sliceTo refs (int (length refs) - sint (Size op)) of
                   Inl e \<Rightarrow> Inl e
                 | Inr refs1 \<Rightarrow> Inr (refs1, deleteAtEnd))
              else Inr (refs, wrap64 (deleteAtEnd + sint (Size op)))))
      else if Model op = RunModel then Inr (refs @ [runItemFromOp ref op], deleteAtEnd)
      else if Model op = PushModel then
        (case Type op of
           OpTypeInit \<Rightarrow>
             (case publishLoop True (sint (Size op)) 1 refs of
                Inl e \<Rightarrow> Inl e | Inr refs1 \<Rightarrow> Inr (refs1, deleteAtEnd))
         | OpTypeRemove \<Rightarrow>
             (case publishLoop False (sint (Size op)) 1 refs of
                Inl e \<Rightarrow> Inl e | Inr refs1 \<Rightarrow> Inr (refs1, deleteAtEnd))
         | OpTypeAmend \<Rightarrow> Inr (refs, deleteAtEnd))
      else Inr (refs, deleteAtEnd))"

fun opsLoop :: "Ref \<Rightarrow> bool \<Rightarrow> VersionInfo list \<times> int \<Rightarrow> Op list \<Rightarrow> error + VersionInfo list \<times> int" where
  "opsLoop ref c st [] = Inr st"
| "opsLoop ref c st (op # rest) =
     (case stepOp ref c st op of Inl e \<Rightarrow> Inl e | Inr st1 \<Rightarrow> opsLoop ref c st1 rest)"

text \<open>
  After the loop: the pending tail delete, the reversal (the swap loop of the source
  reverses the slice in place), then \<open>refs[offset:]\<close> and \<open>refs[:limit]\<close>.
\<close>

definition finishInfos :: "VersionInfo list \<times> int \<Rightarrow> int \<Rightarrow> int \<Rightarrow> error + VersionInfo list" where
  "finishInfos st offset limit =
     (let refs = fst st; deleteAtEnd = snd st;
          refs1 = (if deleteAtEnd > 0
                   then (if deleteAtEnd < int (length refs)
                         then take (nat (int (length refs) - deleteAtEnd)) refs else [])
                   else refs);
          refs2 = rev refs1;
          offset1 = (if offset > int (length refs2) then int (length refs2) else offset)
      in if offset1 < 0 then Inl (Panic ''slice bounds out of range'')
         else
           (let refs3 = drop (nat offset1) refs2
            in if limit < int (length refs3) \<and> limit \<noteq> - 1
               then (if limit < 0 then Inl (Panic ''slice bounds out of range'')
                     else Inr (take (nat limit) refs3))
               else Inr refs3))"

definition branchToVersionInfos :: "Log \<Rightarrow> Ref \<Rightarrow> int \<Rightarrow> int \<Rightarrow> bool \<Rightarrow> error + VersionInfo list" where
  "branchToVersionInfos blog ref offset limit collapseAllDeletes =
     (case opsLoop ref collapseAllDeletes ([], 0) (Ops blog) of
        Inl e \<Rightarrow> Inl e
      | Inr st \<Rightarrow> finishInfos st offset limit)"

section \<open>The log store\<close>

text \<open>
  Modelled from the spec: the oplog engine, that is the store \<open>oplog.Journal\<close> with its
  methods \<open>Get\<close>, \<open>HeadRef\<close> and \<open>RemoveLog\<close>, and the methods \<open>ID\<close>, \<open>Name\<close>,
  \<open>Author\<close>, \<open>Append\<close> and \<open>AddChild\<close> of a log. The store is the list of its
  top-level logs. A pointer \<open>*oplog.Log\<close> into the store is the path of child indices
  leading to the log, so that a write through the pointer is an update of the store at
  that path.
\<close>

text \<open>
  Modelled from the spec: \<open>Log.ID\<close>, \<open>Log.Name\<close> and \<open>Log.Author\<close>. The identifier
  of a log is a hash of its first operation; the hash function is a parameter (\<open>hashOp\<close>
  below). The current name is the name of the latest Init or Amend operation on the model
  of the first operation. The author is the \<open>authorID\<close> of the first operation. A log
  without operations has the empty string for each.
\<close>

definition logID :: "(Op \<Rightarrow> string) \<Rightarrow> Log \<Rightarrow> string" where
  "logID h l = (case Ops l of [] \<Rightarrow> [] | op # _ \<Rightarrow> h op)"

fun logNameLoop :: "32 word \<Rightarrow> string \<Rightarrow> Op list \<Rightarrow> string" where
  "logNameLoop m nm [] = nm"
| "logNameLoop m nm (op # rest) =
     logNameLoop m (if Model op = m \<and> (Type op = OpTypeInit \<or> Type op = OpTypeAmend)
                    then Name op else nm) rest"

definition logName :: "Log \<Rightarrow> string" where
  "logName l = (case Ops l of [] \<Rightarrow> [] | op # _ \<Rightarrow> logNameLoop (Model op) [] (Ops l))"

definition logAuthor :: "Log \<Rightarrow> string" where
  "logAuthor l = (case Ops l of [] \<Rightarrow> [] | op # _ \<Rightarrow> AuthorID op)"

text \<open>
  Reading and writing through a pointer: the log a path leads to, and the store with
  the log at a path replaced by its image under \<open>f\<close>.
\<close>

fun logAt :: "Log list \<Rightarrow> nat list \<Rightarrow> Log option" where
  "logAt ls [] = None"
| "logAt ls (i # p) =
     (if i < length ls
      then (if p = [] then Some (ls ! i) else logAt (Logs (ls ! i)) p)
      else None)"

fun updateAt :: "(Log \<Rightarrow> Log) \<Rightarrow> nat list \<Rightarrow> Log list \<Rightarrow> Log list" where
  "updateAt f [] ls = ls"
| "updateAt f (i # p) ls =
     (if i < length ls
      then ls[i := (if p = [] then f (ls ! i)
                    else Log (Ops (ls ! i)) (updateAt f p (Logs (ls ! i))))]
      else ls)"

text \<open>
  Modelled from the spec: \<open>Log.Append\<close> and \<open>Log.AddChild\<close>. \<open>Append(op)\<close> pushes
  \<open>op\<close> to \<open>ops\<close>; \<open>AddChild\<close> adds a child log.
\<close>

definition Append :: "Op \<Rightarrow> Log \<Rightarrow> Log" where
  "Append op l = Log (Ops l @ [op]) (Logs l)"

definition AddChild :: "Log \<Rightarrow> Log \<Rightarrow> Log" where
  "AddChild child l = Log (Ops l) (Logs l @ [child])"

text \<open>
  Modelled from the spec: \<open>Journal.Get\<close>, the lookup by identifier. It finds the first
  log, parents before children and siblings in order, whose identifier is the one asked
  for.
\<close>

fun findID :: "(Op \<Rightarrow> string) \<Rightarrow> string \<Rightarrow> Log \<Rightarrow> nat list option"
  and findIDs :: "(Op \<Rightarrow> string) \<Rightarrow> string \<Rightarrow> nat \<Rightarrow> Log list \<Rightarrow> nat list option" where
  "findID h ident (Log ops ls) =
     (if logID h (Log ops ls) = ident then Some [] else findIDs h ident 0 ls)"
| "findIDs h ident i [] = None"
| "findIDs h ident i (l # ls) =
     (case findID h ident l of
        Some p \<Rightarrow> Some (i # p)
      | None \<Rightarrow> findIDs h ident (Suc i) ls)"

definition storeGet :: "(Op \<Rightarrow> string) \<Rightarrow> Log list \<Rightarrow> string \<Rightarrow> error + nat list \<times> Log" where
  "storeGet h st ident =
     (case findIDs h ident 0 st of
        None \<Rightarrow> Inl OplogErrNotFound
      | Some p \<Rightarrow> (case logAt st p of None \<Rightarrow> Inl OplogErrNotFound | Some l \<Rightarrow> Inr (p, l)))"

text \<open>
  Modelled from the spec: \<open>Journal.HeadRef\<close>, the lookup by name path. At each level
  it takes the first log whose current name is the segment, and finds nothing if a segment
  fails.
\<close>

fun findName :: "string \<Rightarrow> nat \<Rightarrow> Log list \<Rightarrow> nat option" where
  "findName nm i [] = None"
| "findName nm i (l # ls) = (if logName l = nm then Some i else findName nm (Suc i) ls)"

fun headRefPath :: "Log list \<Rightarrow> string list \<Rightarrow> nat list option" where
  "headRefPath ls [] = Some []"
| "headRefPath ls (nm # nms) =
     (case findName nm 0 ls of
        None \<Rightarrow> None
      | Some i \<Rightarrow>
          (case headRefPath (Logs (ls ! i)) nms of
             None \<Rightarrow> None
           | Some p \<Rightarrow> Some (i # p)))"

definition storeHeadRef :: "Log list \<Rightarrow> string list \<Rightarrow> error + nat list \<times> Log" where
  "storeHeadRef st names =
     (if names = [] then Inl (ErrOther ''name is required'')
      else (case headRefPath st names of
              None \<Rightarrow> Inl OplogErrNotFound
            | Some p \<Rightarrow> (case logAt st p of None \<Rightarrow> Inl OplogErrNotFound | Some l \<Rightarrow> Inr (p, l))))"

text \<open>
  Modelled from the spec: \<open>Journal.RemoveLog\<close>, which physically removes the log a name
  path leads to.
\<close>

fun removeAt :: "nat list \<Rightarrow> Log list \<Rightarrow> Log list" where
  "removeAt [] ls = ls"
| "removeAt (i # p) ls =
     (if i < length ls
      then (if p = [] then take i ls @ drop (Suc i) ls
            else ls[i := Log (Ops (ls ! i)) (removeAt p (Logs (ls ! i)))])
      else ls)"

definition storeRemoveLog :: "Log list \<Rightarrow> string list \<Rightarrow> error option \<times> Log list" where
  "storeRemoveLog st names =
     (if names = [] then (Some (ErrOther ''name is required''), st)
      else (case headRefPath st names of
              None \<Rightarrow> (Some OplogErrNotFound, st)
            | Some p \<Rightarrow> (None, removeAt p st)))"

section \<open>The book\<close>

text \<open>
  \<open>dataset.Dataset\<close> and \<open>run.State\<close>, with the fields the package reads. The commit
  and the structure of a dataset and the start time of a run are pointers and may be nil.
  A \<open>time.Time\<close> is kept as its \<open>UnixNano()\<close>.
\<close>

record Commit =
  cmTimestamp :: "64 word"
  cmTitle :: string
  cmRunID :: string

record Structure =
  stLength :: "64 word"

record Dataset =
  dsetPeername :: string
  dsetProfileID :: string
  dsetName :: string
  dsetPath :: string
  dsetPreviousPath :: string
  dsetCommit :: "Commit option"
  dsetStructure :: "Structure option"

record RunState =
  rsID :: string
  rsNumber :: int
  rsStatus :: string
  rsStartTime :: "64 word option"
  rsDuration :: "64 word"

text \<open>The events of the bus, with the payload \<open>event.DsChange\<close>.\<close>

datatype EventType =
  ETDatasetNameInit | ETDatasetRename | ETDatasetDeleteAll | ETDatasetCommitChange

record DsChange =
  dcInitID :: string
  dcUsername :: string
  dcProfileID :: string
  dcPrettyName :: string
  dcTopIndex :: int
  dcHeadRef :: string
  dcInfo :: "VersionInfo option"

definition emptyDsChange :: DsChange where
  "emptyDsChange = \<lparr> dcInitID = [], dcUsername = [], dcProfileID = [], dcPrettyName = [],
     dcTopIndex = 0, dcHeadRef = [], dcInfo = None \<rparr>"

text \<open>
  What the book does to the world outside its memory is a trace: every call of
  \<open>publisher.Publish\<close> and every call of \<open>fs.Put\<close> (with the location and the bytes
  given, and the error it returned) in the order of the calls.
\<close>

datatype Effect =
    Published EventType DsChange
  | FsPut string string "error option"

text \<open>
  The collaborators of the book whose code is elsewhere are parameters: the hash of an
  operation, \<open>dsref.IsValidName\<close>, the serialisation and encryption of the store
  (\<open>FlatbufferCipher\<close> with the book's key), the filesystem's \<open>Put\<close> (its result may
  depend on everything that happened before), the clock behind \<open>NewTimestamp\<close>,
  \<open>dsref.ConvertDatasetToVersionInfo\<close>, the sparse log of
  \<open>oplog.GetWithSparseAncestorsAllDescendants\<close> followed by \<open>Parent()\<close>, the
  verification of a log against a public key, and the engine's merge.
\<close>

record Env =
  hashOp :: "Op \<Rightarrow> string"
  isValidName :: "string \<Rightarrow> bool"
  flatbufferCipher :: "Log list \<Rightarrow> error + string"
  fsPut :: "Effect list \<Rightarrow> string \<Rightarrow> string \<Rightarrow> string \<times> error option"
  timeAt :: "nat \<Rightarrow> 64 word"
  convertDatasetToVersionInfo :: "Dataset \<Rightarrow> VersionInfo"
  sparseParent :: "Log list \<Rightarrow> string \<Rightarrow> error + Log"
  verifyLog :: "string \<Rightarrow> Log \<Rightarrow> error option"
  storeMergeLog :: "Log list \<Rightarrow> Log \<Rightarrow> error option \<times> Log list"

text \<open>
  The book: the fields of the Go struct that change or are read (\<open>store\<close>, \<open>authorID\<close>,
  \<open>authorName\<close>, \<open>fsLocation\<close>), the number of timestamps taken so far, and the trace.
  The store is an \<open>oplog.Journal\<close>, which is an \<open>oplog.AuthorLogstore\<close>, so the type
  assertions in \<open>save\<close> succeed. The methods are modelled for a non-nil receiver; on a
  nil receiver each returns \<open>ErrNoLogbook\<close> (\<open>ResolveRef\<close>: \<open>ErrRefNotFound\<close>) at once.
\<close>

record Book =
  store :: "Log list"
  authorID :: string
  authorName :: string
  fsLocation :: string
  clock :: nat
  effects :: "Effect list"

definition NewTimestamp :: "Env \<Rightarrow> Book \<Rightarrow> 64 word \<times> Book" where
  "NewTimestamp env b = (timeAt env (clock b), b\<lparr>clock := Suc (clock b)\<rparr>)"

text \<open>\<open>publisher.Publish\<close>: its error is logged and dropped.\<close>

definition Publish :: "EventType \<Rightarrow> DsChange \<Rightarrow> Book \<Rightarrow> Book" where
  "Publish t c b = b\<lparr>effects := effects b @ [Published t c]\<rparr>"

text \<open>
  \<open>save\<close>. Inside the \<open>if\<close> block \<open>ciphertext, err := ...\<close> declares a new \<open>err\<close>;
  the error of \<open>fs.Put\<close> is assigned to that inner variable, and the \<open>return err\<close>
  after the block returns the named result, which is still nil. So \<open>save\<close> reports the
  failure of the cipher and nothing else.
\<close>

definition save :: "Env \<Rightarrow> Book \<Rightarrow> error option \<times> Book" where
  "save env b =
     (case flatbufferCipher env (store b) of
        Inl e \<Rightarrow> (Some e, b)
      | Inr ciphertext \<Rightarrow>
          (let r = fsPut env (effects b) (fsLocation b) ciphertext
           in (None, b\<lparr>fsLocation := fst r,
                       effects := effects b @ [FsPut (fsLocation b) ciphertext (snd r)]\<rparr>)))"

definition authorLog :: "Env \<Rightarrow> Book \<Rightarrow> error + nat list \<times> Log" where
  "authorLog env b = storeGet (hashOp env) (store b) (authorID b)"

definition datasetLog :: "Env \<Rightarrow> Book \<Rightarrow> string \<Rightarrow> error + nat list \<times> Log" where
  "datasetLog env b initID = storeGet (hashOp env) (store b) initID"

text \<open>\<open>branchLog\<close> returns the pointer \<open>lg.Logs[0]\<close>: the first child of the dataset log.\<close>

definition branchLog :: "Env \<Rightarrow> Book \<Rightarrow> string \<Rightarrow> error + nat list \<times> Log" where
  "branchLog env b initID =
     (case storeGet (hashOp env) (store b) initID of
        Inl e \<Rightarrow> Inl e
      | Inr (p, lg) \<Rightarrow>
          (if length (Logs lg) \<noteq> 1
           then Inl (ErrOther ''expected dataset to have 1 branch, has %d'')
           else Inr (p @ [0], Logs lg ! 0)))"

definition hasWriteAccess :: "Book \<Rightarrow> Log \<Rightarrow> error option" where
  "hasWriteAccess b lg =
     (case Ops lg of
        [] \<Rightarrow> Some (Panic ''index out of range'')
      | op # _ \<Rightarrow> (if AuthorID op \<noteq> authorID b then Some ErrAccessDenied else None))"

definition DatasetRef :: "Book \<Rightarrow> Ref \<Rightarrow> error + nat list \<times> Log" where
  "DatasetRef b ref =
     (if refUsername ref = [] then Inl (ErrOther ''logbook: ref.Username is required'')
      else if refName ref = [] then Inl (ErrOther ''logbook: ref.Name is required'')
      else storeHeadRef (store b) [refUsername ref, refName ref])"

definition RefToInitID :: "Env \<Rightarrow> Book \<Rightarrow> Ref \<Rightarrow> error + string" where
  "RefToInitID env b ref =
     (case storeHeadRef (store b) [refUsername ref, refName ref] of
        Inl e \<Rightarrow> (if e = OplogErrNotFound then Inl ErrNotFound else Inl e)
      | Inr (p, dsLog) \<Rightarrow> Inr (logID (hashOp env) dsLog))"

definition emptyRef :: Ref where
  "emptyRef = \<lparr> refInitID = [], refUsername = [], refProfileID = [], refName = [], refPath = [] \<rparr>"

definition RemoveLog :: "Env \<Rightarrow> Book \<Rightarrow> Ref \<Rightarrow> error option \<times> Book" where
  "RemoveLog env b ref =
     save env (b\<lparr>store := snd (storeRemoveLog (store b) [refUsername ref, refName ref])\<rparr>)"

section \<open>Writing to the book\<close>

text \<open>
  Modelled from the spec: the typed wrappers \<open>UserLog\<close>, \<open>DatasetLog\<close> and
  \<open>BranchLog\<close> around a log pointer, declared in another file of the package.
  \<open>Append\<close> pushes the operation, \<open>Size()\<close> is the number of operations, \<open>Ops()\<close>
  the operations, and \<open>ProfileID()\<close> of a user log the \<open>authorID\<close> of its first
  operation.
\<close>

definition appendAt :: "Op \<Rightarrow> nat list \<Rightarrow> Book \<Rightarrow> Book" where
  "appendAt op p b = b\<lparr>store := updateAt (Append op) p (store b)\<rparr>"

definition logSize :: "Book \<Rightarrow> nat list \<Rightarrow> int" where
  "logSize b p = (case logAt (store b) p of None \<Rightarrow> 0 | Some l \<Rightarrow> int (length (Ops l)))"

definition WriteAuthorRename :: "Env \<Rightarrow> Book \<Rightarrow> string \<Rightarrow> error option \<times> Book" where
  "WriteAuthorRename env b newName =
     (if \<not> isValidName env newName then (Some (ErrOther ''logbook: author name %q invalid''), b)
      else (case authorLog env b of
              Inl e \<Rightarrow> (Some e, b)
            | Inr (p, al) \<Rightarrow>
                (let t = NewTimestamp env b;
                     op = (emptyOp OpTypeAmend AuthorModel)
                            \<lparr>AuthorID := authorID b, Name := newName, Timestamp := fst t\<rparr>;
                     r = save env (appendAt op p (snd t))
                 in (case fst r of
                       Some e \<Rightarrow> (Some e, snd r)
                     | None \<Rightarrow> (None, (snd r)\<lparr>authorName := newName\<rparr>)))))"

definition datasetInitOp :: "Book \<Rightarrow> string \<Rightarrow> 64 word \<Rightarrow> Op" where
  "datasetInitOp b dsName ts =
     (emptyOp OpTypeInit DatasetModel)\<lparr>AuthorID := authorID b, Name := dsName, Timestamp := ts\<rparr>"

definition branchInitOp :: "Book \<Rightarrow> 64 word \<Rightarrow> Op" where
  "branchInitOp b ts =
     (emptyOp OpTypeInit BranchModel)
       \<lparr>AuthorID := authorID b, Name := DefaultBranchName, Timestamp := ts\<rparr>"

text \<open>
  \<open>WriteDatasetInit\<close> returns the pair \<open>(initID, err)\<close>. The second part of the
  function, from \<open>authorLog\<close> on, is \<open>initDataset\<close>.
\<close>

definition initDataset :: "Env \<Rightarrow> Book \<Rightarrow> string \<Rightarrow> (string \<times> error option) \<times> Book" where
  "initDataset env b dsName =
     (case authorLog env b of
        Inl e \<Rightarrow> (([], Some e), b)
      | Inr (p, al) \<Rightarrow>
          (case Ops al of
             [] \<Rightarrow> (([], Some (Panic ''index out of range'')), b)
           | aop # _ \<Rightarrow>
               (let profileID = AuthorID aop;
                    t1 = NewTimestamp env b;
                    t2 = NewTimestamp env (snd t1);
                    branch = Log [branchInitOp b (fst t2)] [];
                    dsLog = AddChild branch (Log [datasetInitOp b dsName (fst t1)] []);
                    b1 = (snd t2)\<lparr>store := updateAt (AddChild dsLog) p (store (snd t2))\<rparr>;
                    initID = logID (hashOp env) dsLog;
                    b2 = Publish ETDatasetNameInit
                           (emptyDsChange\<lparr>dcInitID := initID, dcUsername := authorName b,
                              dcProfileID := profileID, dcPrettyName := dsName\<rparr>) b1;
                    r = save env b2
                in ((initID, fst r), snd r))))"

definition WriteDatasetInit :: "Env \<Rightarrow> Book \<Rightarrow> string \<Rightarrow> (string \<times> error option) \<times> Book" where
  "WriteDatasetInit env b dsName =
     (if dsName = [] then
        (([], Some (ErrOther ''logbook: name is required to initialize a dataset'')), b)
      else if \<not> isValidName env dsName then
        (([], Some (ErrOther ''logbook: dataset name %q invalid'')), b)
      else
        (let ref = emptyRef\<lparr>refUsername := authorName b, refName := dsName\<rparr>
         in case DatasetRef b ref of
              Inr (p, dsLog) \<Rightarrow>
                (if length (Ops dsLog) = 1 \<and> length (Logs dsLog) = 1
                    \<and> length (Ops (Logs dsLog ! 0)) = 1
                 then (let r = RemoveLog env b ref
                       in case fst r of
                            Some e \<Rightarrow> (([], Some (ErrOther ''logbook: removing stray log: %w'')), snd r)
                          | None \<Rightarrow> initDataset env (snd r) dsName)
                 else (([], Some (ErrOther ''logbook: dataset named %q already exists'')), b))
            | Inl e \<Rightarrow> initDataset env b dsName))"

definition WriteDatasetRename :: "Env \<Rightarrow> Book \<Rightarrow> string \<Rightarrow> string \<Rightarrow> error option \<times> Book" where
  "WriteDatasetRename env b initID newName =
     (if \<not> isValidName env newName
      then (Some (ErrOther ''logbook: new dataset name %q invalid''), b)
      else (case datasetLog env b initID of
              Inl e \<Rightarrow> (Some e, b)
            | Inr (p, dsLog) \<Rightarrow>
                (case hasWriteAccess b dsLog of
                   Some e \<Rightarrow> (Some e, b)
                 | None \<Rightarrow>
                     (let t = NewTimestamp env b;
                          op = (emptyOp OpTypeAmend DatasetModel)
                                 \<lparr>Name := newName, Timestamp := fst t\<rparr>;
                          b1 = appendAt op p (snd t);
                          b2 = Publish ETDatasetRename
                                 (emptyDsChange\<lparr>dcInitID := initID, dcPrettyName := newName\<rparr>) b1
                      in save env b2))))"

definition WriteDatasetDelete :: "Env \<Rightarrow> Book \<Rightarrow> string \<Rightarrow> error option \<times> Book" where
  "WriteDatasetDelete env b initID =
     (case datasetLog env b initID of
        Inl e \<Rightarrow> (Some e, b)
      | Inr (p, dsLog) \<Rightarrow>
          (case hasWriteAccess b dsLog of
             Some e \<Rightarrow> (Some e, b)
           | None \<Rightarrow>
               (let t = NewTimestamp env b;
                    op = (emptyOp OpTypeRemove DatasetModel)\<lparr>Timestamp := fst t\<rparr>;
                    b1 = appendAt op p (snd t);
                    b2 = Publish ETDatasetDeleteAll (emptyDsChange\<lparr>dcInitID := initID\<rparr>) b1
                in save env b2)))"

text \<open>\<open>fmt.Sprintf("%d", n)\<close>: the decimal digits of an integer.\<close>

fun showNat :: "nat \<Rightarrow> string" where
  "showNat n =
     (if n < 10 then [char_of (48 + n)]
      else showNat (n div 10) @ [char_of (48 + n mod 10)])"

declare showNat.simps [simp del]

definition showInt :: "int \<Rightarrow> string" where
  "showInt i = (if i < 0 then CHR ''-'' # showNat (nat (- i)) else showNat (nat i))"

text \<open>The operation literals of \<open>appendVersionSave\<close> and \<open>appendTransformRun\<close>.\<close>

definition versionSaveOp :: "Dataset \<Rightarrow> Commit \<Rightarrow> Op" where
  "versionSaveOp ds c =
     (emptyOp OpTypeInit CommitModel)
       \<lparr> Ref := dsetPath ds, Prev := dsetPreviousPath ds,
         Relations := (if cmRunID c \<noteq> [] then [runIDRelPrefix @ cmRunID c] else []),
         Timestamp := cmTimestamp c,
         Size := (case dsetStructure ds of None \<Rightarrow> 0 | Some st \<Rightarrow> stLength st),
         Note := cmTitle c \<rparr>"

definition transformRunOp :: "RunState \<Rightarrow> Op" where
  "transformRunOp rs =
     (emptyOp OpTypeInit RunModel)
       \<lparr> Ref := rsID rs, Name := showInt (rsNumber rs),
         Timestamp := (case rsStartTime rs of None \<Rightarrow> 0 | Some t \<Rightarrow> t),
         Size := rsDuration rs, Note := rsStatus rs \<rparr>"

text \<open>
  Both return the index of the appended operation, \<open>blog.Size() - 1\<close>. The commit of the
  dataset has been dereferenced by the caller (\<open>c\<close>); see \<open>WriteVersionSave\<close>.
\<close>

definition appendVersionSave :: "nat list \<Rightarrow> Dataset \<Rightarrow> Commit \<Rightarrow> Book \<Rightarrow> int \<times> Book" where
  "appendVersionSave p ds c b =
     (let b1 = appendAt (versionSaveOp ds c) p b in (logSize b1 p - 1, b1))"

definition appendTransformRun :: "nat list \<Rightarrow> RunState \<Rightarrow> Book \<Rightarrow> int \<times> Book" where
  "appendTransformRun p rs b =
     (let b1 = appendAt (transformRunOp rs) p b in (logSize b1 p - 1, b1))"

text \<open>
  \<open>WriteVersionSave\<close>. A nil \<open>ds.Commit\<close> is dereferenced before anything is appended
  (at \<open>ds.Commit.RunID\<close> when a run state is given, else while the commit operation is
  built), so the panic comes first.
\<close>

definition WriteVersionSave :: "Env \<Rightarrow> Book \<Rightarrow> string \<Rightarrow> Dataset \<Rightarrow> RunState option \<Rightarrow> error option \<times> Book" where
  "WriteVersionSave env b initID ds rs =
     (case branchLog env b initID of
        Inl e \<Rightarrow> (Some e, b)
      | Inr (p, bl) \<Rightarrow>
          (case hasWriteAccess b bl of
             Some e \<Rightarrow> (Some e, b)
           | None \<Rightarrow>
               (case dsetCommit ds of
                  None \<Rightarrow> (Some (Panic ''nil pointer dereference''), b)
                | Some c \<Rightarrow>
                    (case (case rs of
                             None \<Rightarrow> Inr b
                           | Some r \<Rightarrow>
                               (if rsID r \<noteq> cmRunID c
                                then Inl (ErrOther ''dataset.Commit.RunID does not match the provided run.ID'')
                                else Inr (snd (appendTransformRun p r b)))) of
                       Inl e \<Rightarrow> (Some e, b)
                     | Inr b1 \<Rightarrow>
                         (let a = appendVersionSave p ds c b1;
                              r = save env (snd a)
                          in case fst r of
                               Some e \<Rightarrow> (Some e, snd r)
                             | None \<Rightarrow>
                                 (let info = convertDatasetToVersionInfo env ds
                                  in (None, Publish ETDatasetCommitChange
                                        (emptyDsChange\<lparr>dcInitID := initID, dcTopIndex := fst a,
                                           dcHeadRef := viPath info, dcInfo := Some info\<rparr>)
                                        (snd r))))))))"

definition WriteTransformRun :: "Env \<Rightarrow> Book \<Rightarrow> string \<Rightarrow> RunState option \<Rightarrow> error option \<times> Book" where
  "WriteTransformRun env b initID rs =
     (case branchLog env b initID of
        Inl e \<Rightarrow> (Some e, b)
      | Inr (p, bl) \<Rightarrow>
          (case hasWriteAccess b bl of
             Some e \<Rightarrow> (Some e, b)
           | None \<Rightarrow>
               (case rs of
                  None \<Rightarrow> (Some (Panic ''nil pointer dereference''), b)
                | Some r \<Rightarrow> save env (snd (appendTransformRun p r b)))))"

definition WriteVersionAmend :: "Env \<Rightarrow> Book \<Rightarrow> string \<Rightarrow> Dataset \<Rightarrow> error option \<times> Book" where
  "WriteVersionAmend env b initID ds =
     (case branchLog env b initID of
        Inl e \<Rightarrow> (Some e, b)
      | Inr (p, bl) \<Rightarrow>
          (case hasWriteAccess b bl of
             Some e \<Rightarrow> (Some e, b)
           | None \<Rightarrow>
               (case dsetCommit ds of
                  None \<Rightarrow> (Some (Panic ''nil pointer dereference''), b)
                | Some c \<Rightarrow>
                    save env (appendAt
                      ((emptyOp OpTypeAmend CommitModel)
                         \<lparr> Ref := dsetPath ds, Prev := dsetPreviousPath ds,
                           Timestamp := cmTimestamp c, Note := cmTitle c \<rparr>) p b))))"

definition versionDeleteOp :: "64 word \<Rightarrow> Op" where
  "versionDeleteOp revisions = (emptyOp OpTypeRemove CommitModel)\<lparr>Size := revisions\<rparr>"

text \<open>
  \<open>WriteVersionDelete\<close>; \<open>revisions\<close> is a Go \<open>int\<close>, given here as the \<open>int64\<close> it is
  converted to. The items are computed from the branch log after the append.
\<close>

definition WriteVersionDelete :: "Env \<Rightarrow> Book \<Rightarrow> string \<Rightarrow> 64 word \<Rightarrow> error option \<times> Book" where
  "WriteVersionDelete env b initID revisions =
     (case branchLog env b initID of
        Inl e \<Rightarrow> (Some e, b)
      | Inr (p, bl) \<Rightarrow>
          (case hasWriteAccess b bl of
             Some e \<Rightarrow> (Some e, b)
           | None \<Rightarrow>
               (let b1 = appendAt (versionDeleteOp revisions) p b
                in case branchToVersionInfos (Append (versionDeleteOp revisions) bl)
                          emptyRef 0 (- 1) False of
                     Inl e \<Rightarrow> (Some e, b1)
                   | Inr items \<Rightarrow>
                       (if length items > 0
                        then (let lastItem = last items
                              in save env (Publish ETDatasetCommitChange
                                   (emptyDsChange\<lparr>dcInitID := initID,
                                      dcTopIndex := int (length items),
                                      dcHeadRef := viPath lastItem,
                                      dcInfo := Some lastItem\<rparr>) b1))
                        else save env b1))))"

definition UserDatasetBranchesLog :: "Env \<Rightarrow> Book \<Rightarrow> string \<Rightarrow> error + Log" where
  "UserDatasetBranchesLog env b datasetInitID =
     (if datasetInitID = [] then Inl ErrNotFound
      else sparseParent env (store b) datasetInitID)"

text \<open>
  The rollback closure returned by \<open>WriteRemotePush\<close> and \<open>WriteRemoteDelete\<close>, at its
  first call (a \<open>sync.Once\<close> makes later calls return the first result): it drops the last
  operation of the branch log and saves.
\<close>

definition rollback :: "Env \<Rightarrow> string \<Rightarrow> Book \<Rightarrow> error option \<times> Book" where
  "rollback env initID b =
     (case branchLog env b initID of
        Inl e \<Rightarrow> (Some e, b)
      | Inr (p, bl) \<Rightarrow>
          (if Ops bl = [] then (Some (Panic ''slice bounds out of range''), b)
           else save env (b\<lparr>store := updateAt (\<lambda>l. Log (butlast (Ops l)) (Logs l)) p (store b)\<rparr>)))"

definition remotePushOp :: "OpType \<Rightarrow> 64 word \<Rightarrow> 64 word \<Rightarrow> string \<Rightarrow> Op" where
  "remotePushOp t ts revisions remoteAddr =
     (emptyOp t PushModel)\<lparr>Timestamp := ts, Size := revisions, Relations := [remoteAddr]\<rparr>"

text \<open>
  \<open>WriteRemotePush\<close> and \<open>WriteRemoteDelete\<close> differ in the type of the operation only;
  \<open>writeRemote\<close> is their common body. The result is the sparse log or the error.
\<close>

definition writeRemote :: "OpType \<Rightarrow> Env \<Rightarrow> Book \<Rightarrow> string \<Rightarrow> 64 word \<Rightarrow> string \<Rightarrow> (error + Log) \<times> Book" where
  "writeRemote t env b initID revisions remoteAddr =
     (case branchLog env b initID of
        Inl e \<Rightarrow> (Inl e, b)
      | Inr (p, bl) \<Rightarrow>
          (case hasWriteAccess b bl of
             Some e \<Rightarrow> (Inl e, b)
           | None \<Rightarrow>
               (let tm = NewTimestamp env b;
                    r = save env (appendAt (remotePushOp t (fst tm) revisions remoteAddr) p (snd tm))
                in case fst r of
                     Some e \<Rightarrow> (Inl e, snd r)
                   | None \<Rightarrow>
                       (case UserDatasetBranchesLog env (snd r) initID of
                          Inl e \<Rightarrow> (Inl e, snd (rollback env initID (snd r)))
                        | Inr sparseLog \<Rightarrow> (Inr sparseLog, snd r)))))"

definition WriteRemotePush :: "Env \<Rightarrow> Book \<Rightarrow> string \<Rightarrow> 64 word \<Rightarrow> string \<Rightarrow> (error + Log) \<times> Book" where
  "WriteRemotePush = writeRemote OpTypeInit"

definition WriteRemoteDelete :: "Env \<Rightarrow> Book \<Rightarrow> string \<Rightarrow> 64 word \<Rightarrow> string \<Rightarrow> (error + Log) \<times> Book" where
  "WriteRemoteDelete = writeRemote OpTypeRemove"

section \<open>Reading from the book\<close>

text \<open>
  \<open>ResolveRef\<close> writes through the pointer \<open>ref\<close>; the model returns the reference as
  it is left, together with the result.
\<close>

definition ResolveRef :: "Env \<Rightarrow> Book \<Rightarrow> Ref \<Rightarrow> (error + string) \<times> Ref" where
  "ResolveRef env b ref =
     (case RefToInitID env b ref of
        Inl e \<Rightarrow> (Inl ErrRefNotFound, ref)
      | Inr initID \<Rightarrow>
          (let ref1 = ref\<lparr>refInitID := initID\<rparr>
           in case (if refPath ref1 = []
                    then (case branchLog env b initID of
                            Inl e \<Rightarrow> Inl e
                          | Inr (p, bl) \<Rightarrow> Inr (Some bl, ref1\<lparr>refPath := latestSavePath bl\<rparr>))
                    else Inr (None, ref1)) of
                Inl e \<Rightarrow> (Inl e, ref1)
              | Inr (branchLogPtr, ref2) \<Rightarrow>
                  (if refProfileID ref2 = [] then
                     (case (case branchLogPtr of
                              Some bl \<Rightarrow> Inr bl
                            | None \<Rightarrow>
                                (case branchLog env b initID of
                                   Inl e \<Rightarrow> Inl e
                                 | Inr (p, bl) \<Rightarrow> Inr bl)) of
                        Inl e \<Rightarrow> (Inl e, ref2)
                      | Inr bl \<Rightarrow>
                          (case storeGet (hashOp env) (store b) (logAuthor bl) of
                             Inl e \<Rightarrow> (Inl e, ref2)
                           | Inr (ap, al) \<Rightarrow>
                               (case Ops al of
                                  [] \<Rightarrow> (Inl (Panic ''index out of range''), ref2)
                                | aop # _ \<Rightarrow> (Inr [], ref2\<lparr>refProfileID := AuthorID aop\<rparr>))))
                   else (Inr [], ref2))))"

definition Items :: "Env \<Rightarrow> Book \<Rightarrow> Ref \<Rightarrow> int \<Rightarrow> int \<Rightarrow> error + VersionInfo list" where
  "Items env b ref offset limit =
     (case RefToInitID env b (emptyRef\<lparr>refUsername := refUsername ref, refName := refName ref\<rparr>) of
        Inl e \<Rightarrow> Inl e
      | Inr initID \<Rightarrow>
          (case branchLog env b initID of
             Inl e \<Rightarrow> Inl e
           | Inr (p, bl) \<Rightarrow> branchToVersionInfos bl ref offset limit True))"

section \<open>Merging a foreign log\<close>

definition MergeLog :: "Env \<Rightarrow> Book \<Rightarrow> string \<Rightarrow> Log \<Rightarrow> error option \<times> Book" where
  "MergeLog env b senderPubKey lg =
     (case verifyLog env senderPubKey lg of
        Some e \<Rightarrow> (Some e, b)
      | None \<Rightarrow>
          (let m = storeMergeLog env (store b) lg
           in case fst m of
                Some e \<Rightarrow> (Some e, b\<lparr>store := snd m\<rparr>)
              | None \<Rightarrow> save env (b\<lparr>store := snd m\<rparr>)))"

section \<open>Conditions on logs\<close>

text \<open>
  An operation is in range for \<open>n\<close> accumulated entries when the indices the loop of
  \<open>branchToVersionInfos\<close> computes for it stay inside the slice: a commit amend needs an
  entry to replace, a collapsing commit remove and a push or unpublish must not reach
  back beyond the first entry, and a collapsing remove must not have a negative size.
\<close>

definition inRangeOp :: "bool \<Rightarrow> nat \<Rightarrow> Op \<Rightarrow> bool" where
  "inRangeOp collapseAllDeletes n op =
     (if Model op = CommitModel then
        (case Type op of
           OpTypeInit \<Rightarrow> True
         | OpTypeAmend \<Rightarrow> 0 < n
         | OpTypeRemove \<Rightarrow>
             \<not> collapseAllDeletes \<or> (0 \<le> sint (Size op) \<and> sint (Size op) \<le> int n))
      else if Model op = PushModel then
        (case Type op of
           OpTypeAmend \<Rightarrow> True
         | _ \<Rightarrow> sint (Size op) \<le> int n)
      else True)"

text \<open>
  Every operation of a list is in range for the entries the loop has accumulated when it
  reaches the operation.
\<close>

fun opsInRange :: "Ref \<Rightarrow> bool \<Rightarrow> VersionInfo list \<times> int \<Rightarrow> Op list \<Rightarrow> bool" where
  "opsInRange ref c st [] = True"
| "opsInRange ref c st (op # rest) =
     (inRangeOp c (length (fst st)) op \<and>
      (case stepOp ref c st op of
         Inl e \<Rightarrow> True
       | Inr st1 \<Rightarrow> opsInRange ref c st1 rest))"


section \<open>Example data\<close>

text \<open>
  A book of the author \<open>alice\<close> and an environment in which every collaborator succeeds;
  identifiers are \<open>Qm\<close> followed by the name of the first operation.
\<close>

definition exEnv :: Env where
  "exEnv = \<lparr> hashOp = (\<lambda>op. ''Qm'' @ Name op),
     isValidName = (\<lambda>n. n \<noteq> [] \<and> length n \<le> 80),
     flatbufferCipher = (\<lambda>st. Inr ''ciphertext''),
     fsPut = (\<lambda>tr loc data. (loc, None)),
     timeAt = (\<lambda>n. of_nat n),
     convertDatasetToVersionInfo =
       (\<lambda>ds. versionInfoFromOp emptyRef ((emptyOp OpTypeInit CommitModel)\<lparr>Ref := dsetPath ds\<rparr>)),
     sparseParent = (\<lambda>st i. Inr (Log [] [])),
     verifyLog = (\<lambda>k lg. if k = ''alice-public-key'' then None
                          else Some (ErrOther ''invalid signature'')),
     storeMergeLog = (\<lambda>st lg. (None, st @ [lg])) \<rparr>"

text \<open>The same environment with a cipher that fails.\<close>

definition exEnvCipherFails :: Env where
  "exEnvCipherFails = exEnv\<lparr>flatbufferCipher := (\<lambda>st. Inl (ErrOther ''cipher failed''))\<rparr>"

text \<open>The same environment with a filesystem whose \<open>Put\<close> fails.\<close>

definition exEnvPutFails :: Env where
  "exEnvPutFails = exEnv\<lparr>fsPut := (\<lambda>tr loc data. ([], Some (ErrOther ''disk full'')))\<rparr>"

definition exUserInit :: Op where
  "exUserInit = (emptyOp OpTypeInit AuthorModel)\<lparr>Name := ''alice'', AuthorID := ''key-alice''\<rparr>"

definition exDatasetInit :: "string \<Rightarrow> Op" where
  "exDatasetInit author =
     (emptyOp OpTypeInit DatasetModel)\<lparr>Name := ''movies'', AuthorID := author\<rparr>"

definition exBranchInit :: "string \<Rightarrow> Op" where
  "exBranchInit author =
     (emptyOp OpTypeInit BranchModel)\<lparr>Name := DefaultBranchName, AuthorID := author\<rparr>"

definition exBookWith :: "Log list \<Rightarrow> Book" where
  "exBookWith datasets =
     \<lparr> store = [Log [exUserInit] datasets], authorID = ''Qmalice'', authorName = ''alice'',
       fsLocation = ''/mem/logbook.qfb'', clock = 0, effects = [] \<rparr>"

text \<open>
  Alice's book with the dataset \<open>movies\<close>: written by herself and holding the given
  operations after the branch Init, written by \<open>bob\<close>, and without a branch log.
\<close>

definition exBook :: "Op list \<Rightarrow> Book" where
  "exBook ops =
     exBookWith [Log [exDatasetInit ''Qmalice''] [Log (exBranchInit ''Qmalice'' # ops) []]]"

definition exBookForeign :: Book where
  "exBookForeign =
     exBookWith [Log [exDatasetInit ''Qmbob''] [Log [exBranchInit ''Qmbob''] []]]"

definition exBookNoBranch :: Book where
  "exBookNoBranch = exBookWith [Log [exDatasetInit ''Qmalice''] []]"

definition exRef :: Ref where
  "exRef = emptyRef\<lparr>refUsername := ''alice'', refName := ''movies''\<rparr>"

definition exDataset :: "string \<Rightarrow> string \<Rightarrow> Dataset" where
  "exDataset path runID =
     \<lparr> dsetPeername = ''alice'', dsetProfileID = [], dsetName = ''movies'', dsetPath = path,
       dsetPreviousPath = [],
       dsetCommit = Some \<lparr> cmTimestamp = 1000, cmTitle = ''title'', cmRunID = runID \<rparr>,
       dsetStructure = Some \<lparr> stLength = 10 \<rparr> \<rparr>"

definition exCommit :: "string \<Rightarrow> Commit" where
  "exCommit runID = \<lparr> cmTimestamp = 1000, cmTitle = ''title'', cmRunID = runID \<rparr>"

definition exRun :: "string \<Rightarrow> RunState" where
  "exRun ident =
     \<lparr> rsID = ident, rsNumber = 1, rsStatus = ''succeeded'', rsStartTime = None,
       rsDuration = 5 \<rparr>"

lemmas model_defs =
  AuthorModel_def DatasetModel_def BranchModel_def CommitModel_def PushModel_def RunModel_def

lemmas ex_defs = exEnv_def exBook_def exBookWith_def exBookForeign_def exBookNoBranch_def exRef_def
  exUserInit_def exDatasetInit_def exBranchInit_def exDataset_def exCommit_def exRun_def
  emptyRef_def emptyOp_def DefaultBranchName_def

lemmas store_defs = storeGet_def storeHeadRef_def logID_def logName_def logAuthor_def branchLog_def
  datasetLog_def authorLog_def

section \<open>Properties of the head path\<close>

text \<open>
  Claim C1. The head path after three saves and a delete of one revision ought to be the
  path of the second save, and the empty string after a further delete of two revisions.
  \<open>latestSavePath\<close> instead decrements the counter and, when that brings it to zero,
  returns the operation at hand: the scan answers the path of the third save, the very
  revision that was deleted, and after the second delete the path of the first save.
\<close>

theorem latestSavePath_after_deletes:
  "latestSavePath (Log [branchInitOp b ts, versionSaveOp ds1 c1, versionSaveOp ds2 c2,
                        versionSaveOp ds3 c3, versionDeleteOp 1] ls) = dsetPath ds3
   \<and> latestSavePath (Log [branchInitOp b ts, versionSaveOp ds1 c1, versionSaveOp ds2 c2,
                          versionSaveOp ds3 c3, versionDeleteOp 1, versionDeleteOp 2] ls)
       = dsetPath ds1"
  by (simp add: latestSavePath_def branchInitOp_def versionSaveOp_def versionDeleteOp_def
      emptyOp_def wrap64_def CommitModel_def BranchModel_def)

section \<open>Properties of the commit list\<close>

subsection \<open>The publish loop\<close>

lemma publishLoop_nth:
  "1 \<le> i \<Longrightarrow> n \<le> int (length refs) \<Longrightarrow>
   \<exists>r. publishLoop b n i refs = Inr r \<and> length r = length refs \<and>
     (\<forall>k < length refs. r ! k =
        (if int (length refs) - n \<le> int k \<and> k + i \<le> length refs
         then (refs ! k)\<lparr>viPublished := b\<rparr> else refs ! k))"
proof (induction b n i refs rule: publishLoop.induct)
  case (1 b n i refs)
  show ?case
  proof (cases "int i \<le> n")
    case False
    then show ?thesis
      by (subst publishLoop.simps) auto
  next
    case True
    with "1.prems" have il: "i \<le> length refs" by linarith
    let ?refs1 = "refs[length refs - i := (refs ! (length refs - i))\<lparr>viPublished := b\<rparr>]"
    from "1.IH"[OF True] "1.prems" il
    obtain r where r: "publishLoop b n (Suc i) ?refs1 = Inr r" "length r = length refs"
      and nth: "\<forall>k < length refs. r ! k =
        (if int (length refs) - n \<le> int k \<and> k + Suc i \<le> length refs
         then (?refs1 ! k)\<lparr>viPublished := b\<rparr> else ?refs1 ! k)"
      by auto
    have eq: "publishLoop b n i refs = Inr r"
      using True "1.prems" il r by (subst publishLoop.simps) simp
    have "r ! k = (if int (length refs) - n \<le> int k \<and> k + i \<le> length refs
         then (refs ! k)\<lparr>viPublished := b\<rparr> else refs ! k)" if k: "k < length refs" for k
    proof (cases "k = length refs - i")
      case True
      then show ?thesis using nth k il "1.prems" \<open>int i \<le> n\<close>
        by (auto simp: nth_list_update)
    next
      case False
      then show ?thesis using nth k il "1.prems"
        by (auto simp: nth_list_update)
    qed
    with eq r show ?thesis by blast
  qed
qed

lemma publishLoop_closed:
  assumes "n \<le> int (length refs)"
  shows "publishLoop b n (Suc 0) refs =
     Inr (take (length refs - nat n) refs @ map (\<lambda>v. v\<lparr>viPublished := b\<rparr>) (drop (length refs - nat n) refs))"
proof -
  from publishLoop_nth[of 1 n refs b] assms
  obtain r where r: "publishLoop b n (Suc 0) refs = Inr r" "length r = length refs"
      and nth: "\<forall>k < length refs. r ! k =
        (if int (length refs) - n \<le> int k \<and> k + 1 \<le> length refs
         then (refs ! k)\<lparr>viPublished := b\<rparr> else refs ! k)"
    by auto
  have "r = take (length refs - nat n) refs @ map (\<lambda>v. v\<lparr>viPublished := b\<rparr>) (drop (length refs - nat n) refs)"
  proof (rule nth_equalityI)
    show "length r = length (take (length refs - nat n) refs @ map (\<lambda>v. v\<lparr>viPublished := b\<rparr>) (drop (length refs - nat n) refs))"
      using r by simp
  next
    fix k assume "k < length r"
    then have k: "k < length refs" using r by simp
    show "r ! k = (take (length refs - nat n) refs @ map (\<lambda>v. v\<lparr>viPublished := b\<rparr>) (drop (length refs - nat n) refs)) ! k"
      using nth k assms by (auto simp: nth_append)
  qed
  with r show ?thesis by simp
qed

lemma publishLoop_panic:
  "1 \<le> i \<Longrightarrow> i \<le> Suc (length refs) \<Longrightarrow> int (length refs) < n \<Longrightarrow> publishLoop b n i refs = Inl (Panic ''index out of range'')"
proof (induction b n i refs rule: publishLoop.induct)
  case (1 b n i refs)
  show ?case
  proof (cases "i \<le> length refs")
    case True
    then show ?thesis using 1 by (subst publishLoop.simps) auto
  next
    case False
    then show ?thesis using 1 by (subst publishLoop.simps) auto
  qed
qed

lemma commitOpRunID_versionSaveOp: "commitOpRunID (versionSaveOp ds c) = cmRunID c"
  by (simp add: commitOpRunID_def versionSaveOp_def emptyOp_def runIDRelPrefix_def)


lemma stepOp_branchInit: "stepOp ref c st (branchInitOp b ts) = Inr st"
  by (simp add: stepOp_def branchInitOp_def emptyOp_def PushModel_def CommitModel_def
        RunModel_def BranchModel_def)

lemma stepOp_versionSave_fresh:
  "refs = [] \<or> viRunID (last refs) = [] \<Longrightarrow>
   stepOp ref c (refs, d) (versionSaveOp ds cm) = Inr (refs @ [versionInfoFromOp ref (versionSaveOp ds cm)], d)"
  by (auto simp add: stepOp_def commitOpRunID_versionSaveOp Let_def)
     (auto simp: versionSaveOp_def emptyOp_def)

lemma viRunID_versionInfoFromOp: "viRunID (versionInfoFromOp ref op) = []"
  by (simp add: versionInfoFromOp_def)







subsection \<open>When the commit list is defined\<close>

lemma stepOp_inRange:
  assumes "inRangeOp c (length refs) op"
  shows "\<exists>st1. stepOp ref c (refs, d) op = Inr st1"
proof (cases "Model op = CommitModel")
  case True
  then show ?thesis using assms
    by (cases "Type op") (auto simp: stepOp_def inRangeOp_def sliceTo_def Let_def)
next
  case nc: False
  show ?thesis
  proof (cases "Model op = PushModel")
    case True
    then show ?thesis using assms nc
      by (cases "Type op")
         (auto simp: stepOp_def inRangeOp_def Let_def publishLoop_closed RunModel_def PushModel_def)
  next
    case False
    then show ?thesis using nc by (auto simp: stepOp_def Let_def)
  qed
qed

lemma opsLoop_inRange:
  "opsInRange ref c st ops \<Longrightarrow> \<exists>st1. opsLoop ref c st ops = Inr st1"
proof (induction ops arbitrary: st)
  case Nil
  then show ?case by simp
next
  case (Cons op ops)
  from Cons.prems have r: "inRangeOp c (length (fst st)) op" by simp
  from stepOp_inRange[OF r, of ref "snd st"] obtain st1 where s: "stepOp ref c st op = Inr st1"
    by auto
  with Cons.prems have "opsInRange ref c st1 ops" by simp
  from Cons.IH[OF this] s show ?case by simp
qed

lemma finishInfos_returns:
  "0 \<le> offset \<Longrightarrow> - 1 \<le> limit \<Longrightarrow> \<exists>vs. finishInfos st offset limit = Inr vs"
  by (auto simp: finishInfos_def Let_def)

text \<open>
  Claim C2, as amended. The commit list is a function of the branch log, the reference,
  the offset, the limit and the collapse flag, and it returns a list whenever the offset
  is not negative, the limit is at least \<open>-1\<close>, and every operation of the log is in
  range for the entries accumulated before it.
\<close>

theorem branchToVersionInfos_returns:
  assumes "opsInRange ref c ([], 0) (Ops blog)" and "0 \<le> offset" and "- 1 \<le> limit"
  shows "\<exists>vs. branchToVersionInfos blog ref offset limit c = Inr vs"
proof -
  from opsLoop_inRange[OF assms(1)] obtain st1 where "opsLoop ref c ([], 0) (Ops blog) = Inr st1"
    by auto
  with finishInfos_returns[OF assms(2,3), of st1] show ?thesis
    by (simp add: branchToVersionInfos_def)
qed



lemma stepOp_returns_iff:
  "(\<exists>st1. stepOp ref c (refs, d) op = Inr st1) \<longleftrightarrow> inRangeOp c (length refs) op"
proof
  assume "inRangeOp c (length refs) op"
  then show "\<exists>st1. stepOp ref c (refs, d) op = Inr st1" by (rule stepOp_inRange)
next
  assume ok: "\<exists>st1. stepOp ref c (refs, d) op = Inr st1"
  show "inRangeOp c (length refs) op"
  proof (rule ccontr)
    assume n: "\<not> inRangeOp c (length refs) op"
    show False
    proof (cases "Model op = CommitModel")
      case True
      then show ?thesis using n ok
        by (cases "Type op") (auto simp: stepOp_def inRangeOp_def sliceTo_def Let_def split: if_splits)
    next
      case False
      with n have p: "Model op = PushModel" "Type op \<noteq> OpTypeAmend" "int (length refs) < sint (Size op)"
        by (auto simp: inRangeOp_def split: if_splits OpType.splits)
      have "publishLoop b (sint (Size op)) (Suc 0) refs = Inl (Panic ''index out of range'')" for b
        using publishLoop_panic[of 1 refs "sint (Size op)" b] p by simp
      then show False using ok p False
        by (cases "Type op") (auto simp: stepOp_def Let_def RunModel_def PushModel_def)
    qed
  qed
qed

theorem branchToVersionInfos_returns_witness:
  "opsInRange exRef True ([], 0)
     (Ops (Log [exBranchInit ''Qmalice'', versionSaveOp (exDataset ''/ipfs/Qa'' []) (exCommit []),
                versionSaveOp (exDataset ''/ipfs/Qb'' []) (exCommit []), versionDeleteOp 1] []))
   \<and> (0::int) \<le> 0 \<and> - 1 \<le> (- 1 :: int)
   \<and> (\<exists>vs. branchToVersionInfos
          (Log [exBranchInit ''Qmalice'', versionSaveOp (exDataset ''/ipfs/Qa'' []) (exCommit []),
                versionSaveOp (exDataset ''/ipfs/Qb'' []) (exCommit []), versionDeleteOp 1] [])
          exRef 0 (- 1) True = Inr vs)"
proof -
  have h: "opsInRange exRef True ([], 0)
     (Ops (Log [exBranchInit ''Qmalice'', versionSaveOp (exDataset ''/ipfs/Qa'' []) (exCommit []),
                versionSaveOp (exDataset ''/ipfs/Qb'' []) (exCommit []), versionDeleteOp 1] []))"
    by (simp add: inRangeOp_def stepOp_def sliceTo_def commitOpRunID_def exBranchInit_def
        versionSaveOp_def versionDeleteOp_def exDataset_def exCommit_def emptyOp_def model_defs)
  from branchToVersionInfos_returns[OF h, of 0 "- 1"] h show ?thesis by simp
qed

text \<open>
  Claim C2 as stated fails: a commit amend with no entry before it panics, and so does
  the list of a dataset with one save after \<open>WriteVersionDelete\<close> of two revisions.
\<close>

theorem branchToVersionInfos_panics:
  "branchToVersionInfos (Log [exBranchInit ''Qmalice'', emptyOp OpTypeAmend CommitModel] [])
      exRef 0 (- 1) True = Inl (Panic ''index out of range'')
   \<and> Items exEnv
        (snd (WriteVersionDelete exEnv
                (exBook [versionSaveOp (exDataset ''/ipfs/Qa'' []) (exCommit [])]) ''Qmmovies'' 2))
        exRef 0 (- 1) = Inl (Panic ''slice bounds out of range'')"
  by (simp add: Items_def WriteVersionDelete_def exBook_def exBookWith_def exEnv_def exDataset_def exCommit_def exRef_def emptyRef_def
     branchLog_def storeGet_def logID_def exUserInit_def exDatasetInit_def exBranchInit_def emptyOp_def
     hasWriteAccess_def save_def appendAt_def Append_def RefToInitID_def storeHeadRef_def logName_def
     DefaultBranchName_def versionSaveOp_def versionDeleteOp_def commitOpRunID_def finishInfos_def
     branchToVersionInfos_def stepOp_def sliceTo_def wrap64_def Publish_def emptyDsChange_def model_defs)


subsection \<open>Exactness of the condition, and the head of the list\<close>

text \<open>
  The condition is exact: in the model the commit list is returned if and only if every
  operation is in range, the offset is not negative and the limit is at least \<open>-1\<close>.
\<close>

lemma opsLoop_returns_iff:
  "(\<exists>st1. opsLoop ref c st ops = Inr st1) \<longleftrightarrow> opsInRange ref c st ops"
proof (induction ops arbitrary: st)
  case Nil
  then show ?case by simp
next
  case (Cons op ops)
  show ?case
  proof (cases "stepOp ref c st op")
    case (Inl e)
    then have "\<not> inRangeOp c (length (fst st)) op"
      using stepOp_returns_iff[of ref c "fst st" "snd st" op] by simp
    with Inl show ?thesis by simp
  next
    case (Inr st1)
    then have "inRangeOp c (length (fst st)) op"
      using stepOp_returns_iff[of ref c "fst st" "snd st" op] by auto
    with Inr Cons.IH[of st1] show ?thesis by simp
  qed
qed

lemma finishInfos_returns_iff:
  "(\<exists>vs. finishInfos st offset limit = Inr vs) \<longleftrightarrow> 0 \<le> offset \<and> - 1 \<le> limit"
  by (auto simp: finishInfos_def Let_def split: if_splits)

lemma branchToVersionInfos_returns_iff:
  "(\<exists>vs. branchToVersionInfos blog ref offset limit c = Inr vs) \<longleftrightarrow>
   opsInRange ref c ([], 0) (Ops blog) \<and> 0 \<le> offset \<and> - 1 \<le> limit"
proof (cases "opsLoop ref c ([], 0) (Ops blog)")
  case (Inl e)
  then have "\<not> opsInRange ref c ([], 0) (Ops blog)"
    using opsLoop_returns_iff[of ref c "([], 0)" "Ops blog"] by simp
  with Inl show ?thesis by (simp add: branchToVersionInfos_def)
next
  case (Inr st1)
  then have "opsInRange ref c ([], 0) (Ops blog)"
    using opsLoop_returns_iff[of ref c "([], 0)" "Ops blog"] by auto
  with Inr finishInfos_returns_iff[of st1 offset limit] show ?thesis
    by (simp add: branchToVersionInfos_def)
qed

text \<open>
  On the log of claim C1, three saves and a delete of one revision, the commit list has
  the second save at its head, where \<open>latestSavePath\<close> answers the third.
\<close>

lemma commit_list_after_delete:
  "branchToVersionInfos
     (Log [branchInitOp b ts, versionSaveOp ds1 c1, versionSaveOp ds2 c2, versionSaveOp ds3 c3,
           versionDeleteOp 1] ls) ref 0 (- 1) True =
   Inr [versionInfoFromOp ref (versionSaveOp ds2 c2), versionInfoFromOp ref (versionSaveOp ds1 c1)]
   \<and> viPath (versionInfoFromOp ref (versionSaveOp ds2 c2)) = dsetPath ds2"
proof -
  let ?v1 = "versionInfoFromOp ref (versionSaveOp ds1 c1)"
  let ?v2 = "versionInfoFromOp ref (versionSaveOp ds2 c2)"
  let ?v3 = "versionInfoFromOp ref (versionSaveOp ds3 c3)"
  have s1: "stepOp ref True ([], 0) (versionSaveOp ds1 c1) = Inr ([?v1], 0)"
    using stepOp_versionSave_fresh[of "[]" ref True 0 ds1 c1] by simp
  have s2: "stepOp ref True ([?v1], 0) (versionSaveOp ds2 c2) = Inr ([?v1, ?v2], 0)"
    using stepOp_versionSave_fresh[of "[?v1]" ref True 0 ds2 c2]
    by (simp add: viRunID_versionInfoFromOp)
  have s3: "stepOp ref True ([?v1, ?v2], 0) (versionSaveOp ds3 c3) = Inr ([?v1, ?v2, ?v3], 0)"
    using stepOp_versionSave_fresh[of "[?v1, ?v2]" ref True 0 ds3 c3]
    by (simp add: viRunID_versionInfoFromOp)
  have s4: "stepOp ref True ([?v1, ?v2, ?v3], 0) (versionDeleteOp 1) = Inr ([?v1, ?v2], 0)"
    by (simp add: stepOp_def versionDeleteOp_def emptyOp_def sliceTo_def)
  have "opsLoop ref True ([], 0)
      [branchInitOp b ts, versionSaveOp ds1 c1, versionSaveOp ds2 c2, versionSaveOp ds3 c3,
       versionDeleteOp 1] = Inr ([?v1, ?v2], 0)"
    by (simp add: stepOp_branchInit s1 s2 s3 s4)
  then show ?thesis
    by (simp add: branchToVersionInfos_def finishInfos_def versionInfoFromOp_def
        versionSaveOp_def)
qed

section \<open>Properties of reference resolution\<close>

text \<open>
  Claim C3, as amended. When the pair of user name and dataset name resolves to no log,
  \<open>ResolveRef\<close> returns \<open>ErrRefNotFound\<close> and leaves the reference alone. When it
  resolves to a dataset log, the identifier of that log is written to the reference; a
  reference that brings both a path and a profile identifier is then returned as it is.
  Otherwise the branch log is looked up: if the dataset log has exactly one branch log and
  the author identifier of that branch log resolves to the owning user log, an empty path
  becomes the head path of the branch log, an empty profile identifier becomes the
  \<open>authorID\<close> of the first operation of the user log, a path or profile identifier
  given by the caller is kept, and the result is the empty address and no error; if the
  lookup of the branch log fails, its error is returned.
\<close>

theorem ResolveRef_fills_reference:
  "(storeHeadRef (store b) [refUsername ref, refName ref] = Inl e \<longrightarrow>
      ResolveRef env b ref = (Inl ErrRefNotFound, ref))
   \<and> (storeHeadRef (store b) [refUsername ref, refName ref] = Inr (p, dsLog) \<longrightarrow>
        (refPath ref \<noteq> [] \<and> refProfileID ref \<noteq> [] \<longrightarrow>
           ResolveRef env b ref = (Inr [], ref\<lparr>refInitID := logID (hashOp env) dsLog\<rparr>))
      \<and> (branchLog env b (logID (hashOp env) dsLog) = Inr (bp, bl)
           \<and> storeGet (hashOp env) (store b) (logAuthor bl) = Inr (take 1 p, al)
           \<and> Ops al = aop # arest \<longrightarrow>
           ResolveRef env b ref =
             (Inr [], ref\<lparr>refInitID := logID (hashOp env) dsLog,
                          refPath := (if refPath ref = [] then latestSavePath bl else refPath ref),
                          refProfileID := (if refProfileID ref = [] then AuthorID aop
                                           else refProfileID ref)\<rparr>))
      \<and> (branchLog env b (logID (hashOp env) dsLog) = Inl e
           \<and> (refPath ref = [] \<or> refProfileID ref = []) \<longrightarrow>
           ResolveRef env b ref = (Inl e, ref\<lparr>refInitID := logID (hashOp env) dsLog\<rparr>)))"
  by (auto simp: ResolveRef_def RefToInitID_def Let_def)

text \<open>
  Claim C3 as stated fails: a pair that resolves to a dataset log without a branch log is
  answered with an error that is not \<open>ErrRefNotFound\<close>.
\<close>

theorem ResolveRef_without_branch:
  "storeHeadRef (store exBookNoBranch) [refUsername exRef, refName exRef]
     = Inr ([0, 0], Log [exDatasetInit ''Qmalice''] [])
   \<and> ResolveRef exEnv exBookNoBranch exRef
     = (Inl (ErrOther ''expected dataset to have 1 branch, has %d''),
        exRef\<lparr>refInitID := ''Qmmovies''\<rparr>)"
  by (simp add: ResolveRef_def RefToInitID_def ex_defs store_defs model_defs)


theorem ResolveRef_fills_reference_witness:
  "storeHeadRef (store (exBook [versionSaveOp (exDataset ''/ipfs/Qa'' []) (exCommit [])]))
      [refUsername exRef, refName exRef]
     = Inr ([0, 0], Log [exDatasetInit ''Qmalice'']
              [Log [exBranchInit ''Qmalice'', versionSaveOp (exDataset ''/ipfs/Qa'' []) (exCommit [])] []])
   \<and> ResolveRef exEnv (exBook [versionSaveOp (exDataset ''/ipfs/Qa'' []) (exCommit [])]) exRef
     = (Inr [], \<lparr> refInitID = ''Qmmovies'', refUsername = ''alice'', refProfileID = ''key-alice'',
                  refName = ''movies'', refPath = ''/ipfs/Qa'' \<rparr>)
   \<and> storeHeadRef (store (exBook [])) [refUsername (exRef\<lparr>refName := ''books''\<rparr>),
        refName (exRef\<lparr>refName := ''books''\<rparr>)] = Inl OplogErrNotFound
   \<and> ResolveRef exEnv (exBook []) (exRef\<lparr>refName := ''books''\<rparr>)
     = (Inl ErrRefNotFound, exRef\<lparr>refName := ''books''\<rparr>)"
proof -
  let ?save = "versionSaveOp (exDataset ''/ipfs/Qa'' []) (exCommit [])"
  let ?bl = "Log [exBranchInit ''Qmalice'', ?save] []"
  let ?ds = "Log [exDatasetInit ''Qmalice''] [?bl]"
  let ?al = "Log [exUserInit] [?ds]"
  have h1: "storeHeadRef (store (exBook [?save])) [refUsername exRef, refName exRef] = Inr ([0, 0], ?ds)"
    by (simp add: ex_defs store_defs model_defs)
  have h2: "branchLog exEnv (exBook [?save]) (logID (hashOp exEnv) ?ds) = Inr ([0, 0, 0], ?bl)"
    by (simp add: ex_defs store_defs model_defs)
  have h3: "storeGet (hashOp exEnv) (store (exBook [?save])) (logAuthor ?bl) = Inr (take 1 [0, 0], ?al)"
    by (simp add: ex_defs store_defs model_defs)
  have h4: "Ops ?al = exUserInit # []" by simp
  from ResolveRef_fills_reference[of "exBook [?save]" exRef OplogErrNotFound exEnv "[0, 0]" ?ds
      "[0, 0, 0]" ?bl ?al exUserInit "[]"] h1 h2 h3 h4
  have r1: "ResolveRef exEnv (exBook [?save]) exRef =
             (Inr [], exRef\<lparr>refInitID := logID (hashOp exEnv) ?ds,
                          refPath := (if refPath exRef = [] then latestSavePath ?bl else refPath exRef),
                          refProfileID := (if refProfileID exRef = [] then AuthorID exUserInit
                                           else refProfileID exRef)\<rparr>)"
    by blast
  have r1': "ResolveRef exEnv (exBook [?save]) exRef
     = (Inr [], \<lparr> refInitID = ''Qmmovies'', refUsername = ''alice'', refProfileID = ''key-alice'',
                  refName = ''movies'', refPath = ''/ipfs/Qa'' \<rparr>)"
    unfolding r1
    by (simp add: ex_defs store_defs model_defs latestSavePath_def versionSaveOp_def)
  have h5: "storeHeadRef (store (exBook [])) [refUsername (exRef\<lparr>refName := ''books''\<rparr>),
        refName (exRef\<lparr>refName := ''books''\<rparr>)] = Inl OplogErrNotFound"
    by (simp add: ex_defs store_defs model_defs)
  from ResolveRef_fills_reference[of "exBook []" "exRef\<lparr>refName := ''books''\<rparr>" OplogErrNotFound exEnv] h5
  have r2: "ResolveRef exEnv (exBook []) (exRef\<lparr>refName := ''books''\<rparr>)
     = (Inl ErrRefNotFound, exRef\<lparr>refName := ''books''\<rparr>)"
    by blast
  from h1 r1' h5 r2 show ?thesis by blast
qed


section \<open>Properties of merging\<close>

text \<open>
  Claim C4. \<open>MergeLog\<close> verifies the log against the public key of the sender before it
  does anything else. If the verification fails, its error is returned and the book is
  the book as it was: the store, the location and the trace of filesystem writes are
  untouched. Only when the verification succeeds is the log handed to the merge of the
  store, and the book saved if the merge succeeds; so a book that differs after the call
  has seen a verified log.
\<close>

theorem MergeLog_verifies_first:
  "(verifyLog env senderPubKey lg = Some e \<longrightarrow> MergeLog env b senderPubKey lg = (Some e, b))
   \<and> (verifyLog env senderPubKey lg = None \<longrightarrow>
        MergeLog env b senderPubKey lg =
          (case fst (storeMergeLog env (store b) lg) of
             Some e1 \<Rightarrow> (Some e1, b\<lparr>store := snd (storeMergeLog env (store b) lg)\<rparr>)
           | None \<Rightarrow> save env (b\<lparr>store := snd (storeMergeLog env (store b) lg)\<rparr>)))
   \<and> (snd (MergeLog env b senderPubKey lg) \<noteq> b \<longrightarrow> verifyLog env senderPubKey lg = None)"
  by (auto simp: MergeLog_def Let_def split: option.splits)

theorem MergeLog_verifies_first_witness:
  "verifyLog exEnv ''mallory-public-key'' (Log [exDatasetInit ''Qmbob''] [])
     = Some (ErrOther ''invalid signature'')
   \<and> MergeLog exEnv (exBook []) ''mallory-public-key'' (Log [exDatasetInit ''Qmbob''] [])
     = (Some (ErrOther ''invalid signature''), exBook [])
   \<and> verifyLog exEnv ''alice-public-key'' (Log [exDatasetInit ''Qmbob''] []) = None
   \<and> store (snd (MergeLog exEnv (exBook []) ''alice-public-key'' (Log [exDatasetInit ''Qmbob''] [])))
     = store (exBook []) @ [Log [exDatasetInit ''Qmbob''] []]
   \<and> effects (snd (MergeLog exEnv (exBook []) ''alice-public-key'' (Log [exDatasetInit ''Qmbob''] [])))
     = [FsPut ''/mem/logbook.qfb'' ''ciphertext'' None]"
proof -
  have v1: "verifyLog exEnv ''mallory-public-key'' (Log [exDatasetInit ''Qmbob''] [])
     = Some (ErrOther ''invalid signature'')"
    by (simp add: exEnv_def)
  have v2: "verifyLog exEnv ''alice-public-key'' (Log [exDatasetInit ''Qmbob''] []) = None"
    by (simp add: exEnv_def)
  from MergeLog_verifies_first[of exEnv "''mallory-public-key''" "Log [exDatasetInit ''Qmbob''] []"
      "ErrOther ''invalid signature''" "exBook []"] v1
  have m1: "MergeLog exEnv (exBook []) ''mallory-public-key'' (Log [exDatasetInit ''Qmbob''] [])
     = (Some (ErrOther ''invalid signature''), exBook [])" by blast
  from MergeLog_verifies_first[of exEnv "''alice-public-key''" "Log [exDatasetInit ''Qmbob''] []"
      "ErrOther ''invalid signature''" "exBook []"] v2
  have m2: "MergeLog exEnv (exBook []) ''alice-public-key'' (Log [exDatasetInit ''Qmbob''] []) =
          (case fst (storeMergeLog exEnv (store (exBook [])) (Log [exDatasetInit ''Qmbob''] [])) of
             Some e1 \<Rightarrow> (Some e1, (exBook [])\<lparr>store := snd (storeMergeLog exEnv (store (exBook [])) (Log [exDatasetInit ''Qmbob''] []))\<rparr>)
           | None \<Rightarrow> save exEnv ((exBook [])\<lparr>store := snd (storeMergeLog exEnv (store (exBook [])) (Log [exDatasetInit ''Qmbob''] []))\<rparr>))"
    by blast
  have m3: "store (snd (MergeLog exEnv (exBook []) ''alice-public-key'' (Log [exDatasetInit ''Qmbob''] [])))
     = store (exBook []) @ [Log [exDatasetInit ''Qmbob''] []]"
    unfolding m2 by (simp add: exEnv_def save_def)
  have m4: "effects (snd (MergeLog exEnv (exBook []) ''alice-public-key'' (Log [exDatasetInit ''Qmbob''] [])))
     = [FsPut ''/mem/logbook.qfb'' ''ciphertext'' None]"
    unfolding m2 by (simp add: exEnv_def save_def exBook_def exBookWith_def)
  from v1 m1 v2 m3 m4 show ?thesis by blast
qed


section \<open>Properties of writing\<close>

subsection \<open>Write access\<close>

lemma store_save [simp]: "store (snd (save env b)) = store b"
  by (simp add: save_def Let_def split: sum.splits)

lemma store_Publish [simp]: "store (Publish t c b) = store b"
  by (simp add: Publish_def)

lemma store_NewTimestamp [simp]: "store (snd (NewTimestamp env b)) = store b"
  by (simp add: NewTimestamp_def)

lemma store_appendAt [simp]: "store (appendAt op p b) = updateAt (Append op) p (store b)"
  by (simp add: appendAt_def)






lemma granted_dataset_ops:
  assumes "hasWriteAccess b lg = None" and "datasetLog env b initID = Inr (p, lg)"
  shows "isValidName env newName \<Longrightarrow>
           store (snd (WriteDatasetRename env b initID newName)) =
             updateAt (Append ((emptyOp OpTypeAmend DatasetModel)
                                 \<lparr>Name := newName, Timestamp := timeAt env (clock b)\<rparr>)) p (store b)"
    and "store (snd (WriteDatasetDelete env b initID)) =
             updateAt (Append ((emptyOp OpTypeRemove DatasetModel)
                                 \<lparr>Timestamp := timeAt env (clock b)\<rparr>)) p (store b)"
  using assms
  by (simp_all add: WriteDatasetRename_def WriteDatasetDelete_def Let_def)
     (simp_all add: NewTimestamp_def)

lemma granted_branch_ops:
  assumes "hasWriteAccess b lg = None" and "branchLog env b initID = Inr (p, lg)"
  shows "dsetCommit ds = Some c \<Longrightarrow>
           store (snd (WriteVersionSave env b initID ds None)) =
             updateAt (Append (versionSaveOp ds c)) p (store b)"
    and "store (snd (WriteTransformRun env b initID (Some r))) =
             updateAt (Append (transformRunOp r)) p (store b)"
    and "dsetCommit ds = Some c \<Longrightarrow>
           store (snd (WriteVersionAmend env b initID ds)) =
             updateAt (Append ((emptyOp OpTypeAmend CommitModel)
                         \<lparr> Ref := dsetPath ds, Prev := dsetPreviousPath ds,
                           Timestamp := cmTimestamp c, Note := cmTitle c \<rparr>)) p (store b)"
    and "store (snd (WriteVersionDelete env b initID revisions)) =
             updateAt (Append (versionDeleteOp revisions)) p (store b)"
  using assms
  by (simp_all add: WriteVersionSave_def WriteTransformRun_def WriteVersionAmend_def
      WriteVersionDelete_def appendVersionSave_def appendTransformRun_def Let_def
      split: option.splits sum.splits)




subsection \<open>Saving a version with a run\<close>

lemma logAt_snoc:
  "logAt st p = Some l \<Longrightarrow> i < length (Logs l) \<Longrightarrow> logAt st (p @ [i]) = Some (Logs l ! i)"
proof (induction p arbitrary: st)
  case Nil
  then show ?case by simp
next
  case (Cons j p)
  then show ?case by (cases "p = []") (auto split: if_splits)
qed

lemma logAt_updateAt:
  "logAt st p = Some l \<Longrightarrow> logAt (updateAt f p st) p = Some (f l)"
proof (induction p arbitrary: st)
  case Nil
  then show ?case by simp
next
  case (Cons j p)
  then show ?case by (cases "p = []") (auto split: if_splits)
qed

lemma storeGet_logAt: "storeGet h st ident = Inr (p, l) \<Longrightarrow> logAt st p = Some l"
  by (auto simp: storeGet_def split: option.splits)

lemma branchLog_logAt:
  assumes "branchLog env b initID = Inr (p, lg)"
  shows "logAt (store b) p = Some lg"
proof -
  from assms obtain p0 dl where g: "storeGet (hashOp env) (store b) initID = Inr (p0, dl)"
    and l: "length (Logs dl) = 1" and p: "p = p0 @ [0]" and lg: "lg = Logs dl ! 0"
    by (auto simp: branchLog_def split: sum.splits if_splits)
  from storeGet_logAt[OF g] l show ?thesis
    unfolding p lg by (intro logAt_snoc) auto
qed

lemma Append_Append: "Append op2 (Append op1 l) = Log (Ops l @ [op1, op2]) (Logs l)"
  by (simp add: Append_def)


text \<open>
  Claim C10, as amended. For a branch log the book may write to and a dataset with a
  commit, \<open>WriteVersionSave\<close> with a run state whose identifier differs from the run
  identifier of the commit returns an error and leaves the book as it was. When the two
  agree, the branch log afterwards holds its former operations followed by exactly two
  more: the Run operation of the run state and the Commit Init operation of the dataset.
  The relations of the commit operation are the single string \<open>runID:\<close> followed by the
  run identifier when that identifier is not empty, and no relation when it is empty.
\<close>

theorem WriteVersionSave_with_run:
  "branchLog env b initID = Inr (p, lg) \<and> hasWriteAccess b lg = None \<and> dsetCommit ds = Some c \<longrightarrow>
     (rsID r \<noteq> cmRunID c \<longrightarrow>
        WriteVersionSave env b initID ds (Some r) =
          (Some (ErrOther ''dataset.Commit.RunID does not match the provided run.ID''), b))
   \<and> (rsID r = cmRunID c \<longrightarrow>
        logAt (store (snd (WriteVersionSave env b initID ds (Some r)))) p =
          Some (Log (Ops lg @ [transformRunOp r, versionSaveOp ds c]) (Logs lg))
      \<and> Type (transformRunOp r) = OpTypeInit \<and> Model (transformRunOp r) = RunModel
      \<and> Ref (transformRunOp r) = rsID r
      \<and> Type (versionSaveOp ds c) = OpTypeInit \<and> Model (versionSaveOp ds c) = CommitModel
      \<and> Relations (versionSaveOp ds c) =
           (if rsID r = [] then [] else [runIDRelPrefix @ rsID r])
      \<and> commitOpRunID (versionSaveOp ds c) = rsID r)"
proof (intro impI conjI)
  assume a: "branchLog env b initID = Inr (p, lg) \<and> hasWriteAccess b lg = None \<and> dsetCommit ds = Some c"
  show "WriteVersionSave env b initID ds (Some r) =
          (Some (ErrOther ''dataset.Commit.RunID does not match the provided run.ID''), b)"
    if "rsID r \<noteq> cmRunID c"
    using a that by (simp add: WriteVersionSave_def)
  assume e: "rsID r = cmRunID c"
  have st: "store (snd (WriteVersionSave env b initID ds (Some r))) =
      updateAt (Append (versionSaveOp ds c)) p (updateAt (Append (transformRunOp r)) p (store b))"
    using a e
    by (simp add: WriteVersionSave_def appendVersionSave_def appendTransformRun_def Let_def
        appendAt_def save_def Publish_def split: option.splits sum.splits)
  from a have "branchLog env b initID = Inr (p, lg)" by simp
  then have l: "logAt (store b) p = Some lg" by (rule branchLog_logAt)
  show "logAt (store (snd (WriteVersionSave env b initID ds (Some r)))) p =
          Some (Log (Ops lg @ [transformRunOp r, versionSaveOp ds c]) (Logs lg))"
    unfolding st using logAt_updateAt[OF logAt_updateAt[OF l]] by (simp add: Append_Append)
  show "Type (transformRunOp r) = OpTypeInit" "Model (transformRunOp r) = RunModel"
    "Ref (transformRunOp r) = rsID r"
    by (simp_all add: transformRunOp_def emptyOp_def)
  show "Type (versionSaveOp ds c) = OpTypeInit" "Model (versionSaveOp ds c) = CommitModel"
    by (simp_all add: versionSaveOp_def emptyOp_def)
  show "Relations (versionSaveOp ds c) = (if rsID r = [] then [] else [runIDRelPrefix @ rsID r])"
    using e by (simp add: versionSaveOp_def emptyOp_def)
  show "commitOpRunID (versionSaveOp ds c) = rsID r"
    using e by (simp add: commitOpRunID_versionSaveOp)
qed

text \<open>
  Claim C10 as stated fails for a run state and a commit that agree on the empty run
  identifier: the two operations are appended, and the commit operation has no relation.
\<close>

theorem WriteVersionSave_empty_run_id:
  "rsID (exRun []) = cmRunID (exCommit [])
   \<and> fst (WriteVersionSave exEnv (exBook []) ''Qmmovies'' (exDataset ''/ipfs/Qa'' []) (Some (exRun [])))
       = None
   \<and> store (snd (WriteVersionSave exEnv (exBook []) ''Qmmovies'' (exDataset ''/ipfs/Qa'' [])
                   (Some (exRun []))))
       = store (exBook [transformRunOp (exRun []),
                        versionSaveOp (exDataset ''/ipfs/Qa'' []) (exCommit [])])
   \<and> Relations (versionSaveOp (exDataset ''/ipfs/Qa'' []) (exCommit [])) = []"
  by (simp add: WriteVersionSave_def ex_defs store_defs model_defs hasWriteAccess_def
      appendVersionSave_def appendTransformRun_def appendAt_def Append_def save_def Publish_def
      versionSaveOp_def Let_def)

theorem WriteVersionSave_with_run_witness:
  "branchLog exEnv (exBook []) ''Qmmovies'' = Inr ([0, 0, 0], Log [exBranchInit ''Qmalice''] [])
   \<and> hasWriteAccess (exBook []) (Log [exBranchInit ''Qmalice''] []) = None
   \<and> dsetCommit (exDataset ''/ipfs/Qa'' ''run1'') = Some (exCommit ''run1'')
   \<and> rsID (exRun ''run2'') \<noteq> cmRunID (exCommit ''run1'')
   \<and> WriteVersionSave exEnv (exBook []) ''Qmmovies'' (exDataset ''/ipfs/Qa'' ''run1'') (Some (exRun ''run2''))
       = (Some (ErrOther ''dataset.Commit.RunID does not match the provided run.ID''), exBook [])
   \<and> rsID (exRun ''run1'') = cmRunID (exCommit ''run1'')
   \<and> logAt (store (snd (WriteVersionSave exEnv (exBook []) ''Qmmovies''
                           (exDataset ''/ipfs/Qa'' ''run1'') (Some (exRun ''run1''))))) [0, 0, 0]
       = Some (Log [exBranchInit ''Qmalice'', transformRunOp (exRun ''run1''),
                    versionSaveOp (exDataset ''/ipfs/Qa'' ''run1'') (exCommit ''run1'')] [])
   \<and> Relations (versionSaveOp (exDataset ''/ipfs/Qa'' ''run1'') (exCommit ''run1'')) = [''runID:run1'']"
proof -
  let ?lg = "Log [exBranchInit ''Qmalice''] []"
  let ?ds = "exDataset ''/ipfs/Qa'' ''run1''"
  have h1: "branchLog exEnv (exBook []) ''Qmmovies'' = Inr ([0, 0, 0], ?lg)"
    by (simp add: ex_defs store_defs model_defs)
  have h2: "hasWriteAccess (exBook []) ?lg = None"
    by (simp add: hasWriteAccess_def ex_defs)
  have h3: "dsetCommit ?ds = Some (exCommit ''run1'')"
    by (simp add: ex_defs)
  have n: "rsID (exRun ''run2'') \<noteq> cmRunID (exCommit ''run1'')" by (simp add: ex_defs)
  have e: "rsID (exRun ''run1'') = cmRunID (exCommit ''run1'')" by (simp add: ex_defs)
  from WriteVersionSave_with_run[of exEnv "exBook []" "''Qmmovies''" "[0, 0, 0]" ?lg ?ds
      "exCommit ''run1''" "exRun ''run2''"] h1 h2 h3 n
  have r1: "WriteVersionSave exEnv (exBook []) ''Qmmovies'' ?ds (Some (exRun ''run2''))
       = (Some (ErrOther ''dataset.Commit.RunID does not match the provided run.ID''), exBook [])"
    by blast
  from WriteVersionSave_with_run[of exEnv "exBook []" "''Qmmovies''" "[0, 0, 0]" ?lg ?ds
      "exCommit ''run1''" "exRun ''run1''"] h1 h2 h3 e
  have r2: "logAt (store (snd (WriteVersionSave exEnv (exBook []) ''Qmmovies'' ?ds (Some (exRun ''run1''))))) [0, 0, 0]
       = Some (Log (Ops ?lg @ [transformRunOp (exRun ''run1''), versionSaveOp ?ds (exCommit ''run1'')]) (Logs ?lg))"
    and r3: "Relations (versionSaveOp ?ds (exCommit ''run1'')) =
           (if rsID (exRun ''run1'') = [] then [] else [runIDRelPrefix @ rsID (exRun ''run1'')])"
    by blast+
  from r3 have r3': "Relations (versionSaveOp ?ds (exCommit ''run1'')) = [''runID:run1'']"
    by (simp add: exRun_def runIDRelPrefix_def)
  from r2 have r2': "logAt (store (snd (WriteVersionSave exEnv (exBook []) ''Qmmovies'' ?ds (Some (exRun ''run1''))))) [0, 0, 0]
       = Some (Log [exBranchInit ''Qmalice'', transformRunOp (exRun ''run1''),
                    versionSaveOp ?ds (exCommit ''run1'')] [])"
    by simp
  from h1 h2 h3 n r1 e r2' r3' show ?thesis by blast
qed


subsection \<open>Failing saves and the order of events\<close>

lemma save_cipher_fails:
  "flatbufferCipher env (store b) = Inl e \<Longrightarrow> save env b = (Some e, b)"
  by (simp add: save_def)

lemma failed_save_dataset_ops:
  assumes "hasWriteAccess b lg = None" and "datasetLog env b initID = Inr (p, lg)"
  shows "isValidName env newName \<Longrightarrow>
         flatbufferCipher env (updateAt (Append ((emptyOp OpTypeAmend DatasetModel)
             \<lparr>Name := newName, Timestamp := timeAt env (clock b)\<rparr>)) p (store b)) = Inl e \<Longrightarrow>
         fst (WriteDatasetRename env b initID newName) = Some e"
    and "flatbufferCipher env (updateAt (Append ((emptyOp OpTypeRemove DatasetModel)
             \<lparr>Timestamp := timeAt env (clock b)\<rparr>)) p (store b)) = Inl e \<Longrightarrow>
         fst (WriteDatasetDelete env b initID) = Some e"
  using assms
  by (simp_all add: WriteDatasetRename_def WriteDatasetDelete_def Let_def NewTimestamp_def
      save_cipher_fails)

lemma failed_save_branch_ops:
  assumes "hasWriteAccess b lg = None" and "branchLog env b initID = Inr (p, lg)"
  shows "dsetCommit ds = Some c \<Longrightarrow>
         flatbufferCipher env (updateAt (Append (versionSaveOp ds c)) p (store b)) = Inl e \<Longrightarrow>
         fst (WriteVersionSave env b initID ds None) = Some e"
    and "flatbufferCipher env (updateAt (Append (transformRunOp r)) p (store b)) = Inl e \<Longrightarrow>
         fst (WriteTransformRun env b initID (Some r)) = Some e"
    and "dsetCommit ds = Some c \<Longrightarrow>
         flatbufferCipher env (updateAt (Append ((emptyOp OpTypeAmend CommitModel)
                         \<lparr> Ref := dsetPath ds, Prev := dsetPreviousPath ds,
                           Timestamp := cmTimestamp c, Note := cmTitle c \<rparr>)) p (store b)) = Inl e \<Longrightarrow>
         fst (WriteVersionAmend env b initID ds) = Some e"
    and "branchToVersionInfos (Append (versionDeleteOp revisions) lg) emptyRef 0 (- 1) False = Inr items \<Longrightarrow>
         flatbufferCipher env (updateAt (Append (versionDeleteOp revisions)) p (store b)) = Inl e \<Longrightarrow>
         fst (WriteVersionDelete env b initID revisions) = Some e"
    and "flatbufferCipher env (updateAt (Append (remotePushOp t (timeAt env (clock b)) revisions remoteAddr)) p (store b)) = Inl e \<Longrightarrow>
         writeRemote t env b initID revisions remoteAddr =
           (Inl e, b\<lparr>clock := Suc (clock b), store := updateAt (Append (remotePushOp t (timeAt env (clock b)) revisions remoteAddr)) p (store b)\<rparr>)"
  using assms
  by (simp_all add: WriteVersionSave_def WriteTransformRun_def WriteVersionAmend_def
      WriteVersionDelete_def writeRemote_def appendVersionSave_def appendTransformRun_def
      Let_def NewTimestamp_def save_cipher_fails appendAt_def Publish_def)

text \<open>
  Claim C8, as amended. When the save at the end of a write operation reports an error,
  the operation returns that error and the store in memory keeps the operation that was
  appended: nothing is rolled back. This holds for each of the eight operations that
  append to a log found by its identifier.
\<close>

theorem failed_save_keeps_append:
  "hasWriteAccess b lg = None \<longrightarrow>
     (datasetLog env b initID = Inr (p, lg) \<longrightarrow>
        (isValidName env newName
         \<and> flatbufferCipher env (updateAt (Append ((emptyOp OpTypeAmend DatasetModel)
               \<lparr>Name := newName, Timestamp := timeAt env (clock b)\<rparr>)) p (store b)) = Inl e \<longrightarrow>
           fst (WriteDatasetRename env b initID newName) = Some e
         \<and> store (snd (WriteDatasetRename env b initID newName)) =
             updateAt (Append ((emptyOp OpTypeAmend DatasetModel)
               \<lparr>Name := newName, Timestamp := timeAt env (clock b)\<rparr>)) p (store b))
      \<and> (flatbufferCipher env (updateAt (Append ((emptyOp OpTypeRemove DatasetModel)
               \<lparr>Timestamp := timeAt env (clock b)\<rparr>)) p (store b)) = Inl e \<longrightarrow>
           fst (WriteDatasetDelete env b initID) = Some e
         \<and> store (snd (WriteDatasetDelete env b initID)) =
             updateAt (Append ((emptyOp OpTypeRemove DatasetModel)
               \<lparr>Timestamp := timeAt env (clock b)\<rparr>)) p (store b)))
   \<and> (branchLog env b initID = Inr (p, lg) \<longrightarrow>
        (dsetCommit ds = Some c
         \<and> flatbufferCipher env (updateAt (Append (versionSaveOp ds c)) p (store b)) = Inl e \<longrightarrow>
           fst (WriteVersionSave env b initID ds None) = Some e
         \<and> store (snd (WriteVersionSave env b initID ds None)) =
             updateAt (Append (versionSaveOp ds c)) p (store b))
      \<and> (flatbufferCipher env (updateAt (Append (transformRunOp r)) p (store b)) = Inl e \<longrightarrow>
           fst (WriteTransformRun env b initID (Some r)) = Some e
         \<and> store (snd (WriteTransformRun env b initID (Some r))) =
             updateAt (Append (transformRunOp r)) p (store b))
      \<and> (dsetCommit ds = Some c
         \<and> flatbufferCipher env (updateAt (Append ((emptyOp OpTypeAmend CommitModel)
               \<lparr> Ref := dsetPath ds, Prev := dsetPreviousPath ds,
                 Timestamp := cmTimestamp c, Note := cmTitle c \<rparr>)) p (store b)) = Inl e \<longrightarrow>
           fst (WriteVersionAmend env b initID ds) = Some e
         \<and> store (snd (WriteVersionAmend env b initID ds)) =
             updateAt (Append ((emptyOp OpTypeAmend CommitModel)
               \<lparr> Ref := dsetPath ds, Prev := dsetPreviousPath ds,
                 Timestamp := cmTimestamp c, Note := cmTitle c \<rparr>)) p (store b))
      \<and> (branchToVersionInfos (Append (versionDeleteOp revisions) lg) emptyRef 0 (- 1) False
            = Inr items
         \<and> flatbufferCipher env (updateAt (Append (versionDeleteOp revisions)) p (store b)) = Inl e \<longrightarrow>
           fst (WriteVersionDelete env b initID revisions) = Some e
         \<and> store (snd (WriteVersionDelete env b initID revisions)) =
             updateAt (Append (versionDeleteOp revisions)) p (store b))
      \<and> (flatbufferCipher env (updateAt (Append (remotePushOp OpTypeInit (timeAt env (clock b))
               revisions remoteAddr)) p (store b)) = Inl e \<longrightarrow>
           fst (WriteRemotePush env b initID revisions remoteAddr) = Inl e
         \<and> store (snd (WriteRemotePush env b initID revisions remoteAddr)) =
             updateAt (Append (remotePushOp OpTypeInit (timeAt env (clock b))
               revisions remoteAddr)) p (store b))
      \<and> (flatbufferCipher env (updateAt (Append (remotePushOp OpTypeRemove (timeAt env (clock b))
               revisions remoteAddr)) p (store b)) = Inl e \<longrightarrow>
           fst (WriteRemoteDelete env b initID revisions remoteAddr) = Inl e
         \<and> store (snd (WriteRemoteDelete env b initID revisions remoteAddr)) =
             updateAt (Append (remotePushOp OpTypeRemove (timeAt env (clock b))
               revisions remoteAddr)) p (store b)))"
proof (intro impI conjI)
  assume h: "hasWriteAccess b lg = None"
  {
    assume d: "datasetLog env b initID = Inr (p, lg)"
    {
      assume a: "isValidName env newName
         \<and> flatbufferCipher env (updateAt (Append ((emptyOp OpTypeAmend DatasetModel)
               \<lparr>Name := newName, Timestamp := timeAt env (clock b)\<rparr>)) p (store b)) = Inl e"
      show "fst (WriteDatasetRename env b initID newName) = Some e"
        using failed_save_dataset_ops(1)[OF h d] a by blast
      show "store (snd (WriteDatasetRename env b initID newName)) =
             updateAt (Append ((emptyOp OpTypeAmend DatasetModel)
               \<lparr>Name := newName, Timestamp := timeAt env (clock b)\<rparr>)) p (store b)"
        using granted_dataset_ops(1)[OF h d] a by blast
    }
    {
      assume a: "flatbufferCipher env (updateAt (Append ((emptyOp OpTypeRemove DatasetModel)
               \<lparr>Timestamp := timeAt env (clock b)\<rparr>)) p (store b)) = Inl e"
      show "fst (WriteDatasetDelete env b initID) = Some e"
        using failed_save_dataset_ops(2)[OF h d] a by blast
      show "store (snd (WriteDatasetDelete env b initID)) =
             updateAt (Append ((emptyOp OpTypeRemove DatasetModel)
               \<lparr>Timestamp := timeAt env (clock b)\<rparr>)) p (store b)"
        using granted_dataset_ops(2)[OF h d] by blast
    }
  }
  {
    assume d: "branchLog env b initID = Inr (p, lg)"
    {
      assume a: "dsetCommit ds = Some c
         \<and> flatbufferCipher env (updateAt (Append (versionSaveOp ds c)) p (store b)) = Inl e"
      show "fst (WriteVersionSave env b initID ds None) = Some e"
        using failed_save_branch_ops(1)[OF h d] a by blast
      show "store (snd (WriteVersionSave env b initID ds None)) =
             updateAt (Append (versionSaveOp ds c)) p (store b)"
        using granted_branch_ops(1)[OF h d] a by blast
    }
    {
      assume a: "flatbufferCipher env (updateAt (Append (transformRunOp r)) p (store b)) = Inl e"
      show "fst (WriteTransformRun env b initID (Some r)) = Some e"
        using failed_save_branch_ops(2)[OF h d] a by blast
      show "store (snd (WriteTransformRun env b initID (Some r))) =
             updateAt (Append (transformRunOp r)) p (store b)"
        using granted_branch_ops(2)[OF h d] by blast
    }
    {
      assume a: "dsetCommit ds = Some c
         \<and> flatbufferCipher env (updateAt (Append ((emptyOp OpTypeAmend CommitModel)
               \<lparr> Ref := dsetPath ds, Prev := dsetPreviousPath ds,
                 Timestamp := cmTimestamp c, Note := cmTitle c \<rparr>)) p (store b)) = Inl e"
      show "fst (WriteVersionAmend env b initID ds) = Some e"
        using failed_save_branch_ops(3)[OF h d] a by blast
      show "store (snd (WriteVersionAmend env b initID ds)) =
             updateAt (Append ((emptyOp OpTypeAmend CommitModel)
               \<lparr> Ref := dsetPath ds, Prev := dsetPreviousPath ds,
                 Timestamp := cmTimestamp c, Note := cmTitle c \<rparr>)) p (store b)"
        using granted_branch_ops(3)[OF h d] a by blast
    }
    {
      assume a: "branchToVersionInfos (Append (versionDeleteOp revisions) lg) emptyRef 0 (- 1) False
            = Inr items
         \<and> flatbufferCipher env (updateAt (Append (versionDeleteOp revisions)) p (store b)) = Inl e"
      show "fst (WriteVersionDelete env b initID revisions) = Some e"
        using failed_save_branch_ops(4)[OF h d] a by blast
      show "store (snd (WriteVersionDelete env b initID revisions)) =
             updateAt (Append (versionDeleteOp revisions)) p (store b)"
        using granted_branch_ops(4)[OF h d] by blast
    }
    {
      assume a: "flatbufferCipher env (updateAt (Append (remotePushOp OpTypeInit (timeAt env (clock b))
               revisions remoteAddr)) p (store b)) = Inl e"
      from failed_save_branch_ops(5)[OF h d a]
      show "fst (WriteRemotePush env b initID revisions remoteAddr) = Inl e"
        and "store (snd (WriteRemotePush env b initID revisions remoteAddr)) =
             updateAt (Append (remotePushOp OpTypeInit (timeAt env (clock b))
               revisions remoteAddr)) p (store b)"
        by (simp_all add: WriteRemotePush_def)
    }
    {
      assume a: "flatbufferCipher env (updateAt (Append (remotePushOp OpTypeRemove (timeAt env (clock b))
               revisions remoteAddr)) p (store b)) = Inl e"
      from failed_save_branch_ops(5)[OF h d a]
      show "fst (WriteRemoteDelete env b initID revisions remoteAddr) = Inl e"
        and "store (snd (WriteRemoteDelete env b initID revisions remoteAddr)) =
             updateAt (Append (remotePushOp OpTypeRemove (timeAt env (clock b))
               revisions remoteAddr)) p (store b)"
        by (simp_all add: WriteRemoteDelete_def)
    }
  }
qed

theorem failed_save_keeps_append_witness:
  "hasWriteAccess (exBook []) (Log [exDatasetInit ''Qmalice''] [Log [exBranchInit ''Qmalice''] []]) = None
   \<and> datasetLog exEnvCipherFails (exBook []) ''Qmmovies''
       = Inr ([0, 0], Log [exDatasetInit ''Qmalice''] [Log [exBranchInit ''Qmalice''] []])
   \<and> isValidName exEnvCipherFails ''films''
   \<and> flatbufferCipher exEnvCipherFails
         (updateAt (Append ((emptyOp OpTypeAmend DatasetModel)
             \<lparr>Name := ''films'', Timestamp := timeAt exEnvCipherFails (clock (exBook []))\<rparr>))
            [0, 0] (store (exBook []))) = Inl (ErrOther ''cipher failed'')
   \<and> fst (WriteDatasetRename exEnvCipherFails (exBook []) ''Qmmovies'' ''films'')
       = Some (ErrOther ''cipher failed'')
   \<and> store (snd (WriteDatasetRename exEnvCipherFails (exBook []) ''Qmmovies'' ''films''))
       = [Log [exUserInit]
            [Log [exDatasetInit ''Qmalice'',
                  (emptyOp OpTypeAmend DatasetModel)\<lparr>Name := ''films'', Timestamp := 0\<rparr>]
               [Log [exBranchInit ''Qmalice''] []]]]"
proof -
  let ?lg = "Log [exDatasetInit ''Qmalice''] [Log [exBranchInit ''Qmalice''] []]"
  let ?op = "(emptyOp OpTypeAmend DatasetModel)
             \<lparr>Name := ''films'', Timestamp := timeAt exEnvCipherFails (clock (exBook []))\<rparr>"
  have h: "hasWriteAccess (exBook []) ?lg = None"
    by (simp add: hasWriteAccess_def ex_defs)
  have d: "datasetLog exEnvCipherFails (exBook []) ''Qmmovies'' = Inr ([0, 0], ?lg)"
    by (simp add: exEnvCipherFails_def ex_defs store_defs model_defs)
  have v: "isValidName exEnvCipherFails ''films''"
    by (simp add: exEnvCipherFails_def ex_defs)
  have c: "flatbufferCipher exEnvCipherFails (updateAt (Append ?op) [0, 0] (store (exBook [])))
      = Inl (ErrOther ''cipher failed'')"
    by (simp add: exEnvCipherFails_def)
  from failed_save_keeps_append[of "exBook []" ?lg exEnvCipherFails "''Qmmovies''" "[0, 0]"
      "''films''" "ErrOther ''cipher failed''"] h d v c
  have r: "fst (WriteDatasetRename exEnvCipherFails (exBook []) ''Qmmovies'' ''films'')
       = Some (ErrOther ''cipher failed'')"
    and s: "store (snd (WriteDatasetRename exEnvCipherFails (exBook []) ''Qmmovies'' ''films''))
       = updateAt (Append ?op) [0, 0] (store (exBook []))"
    by blast+
  have "updateAt (Append ?op) [0, 0] (store (exBook [])) =
      [Log [exUserInit]
            [Log [exDatasetInit ''Qmalice'',
                  (emptyOp OpTypeAmend DatasetModel)\<lparr>Name := ''films'', Timestamp := 0\<rparr>]
               [Log [exBranchInit ''Qmalice''] []]]]"
    by (simp add: exBook_def exBookWith_def Append_def exEnvCipherFails_def exEnv_def)
  with s have s': "store (snd (WriteDatasetRename exEnvCipherFails (exBook []) ''Qmmovies'' ''films''))
       = [Log [exUserInit]
            [Log [exDatasetInit ''Qmalice'',
                  (emptyOp OpTypeAmend DatasetModel)\<lparr>Name := ''films'', Timestamp := 0\<rparr>]
               [Log [exBranchInit ''Qmalice''] []]]]"
    by simp
  from h d v c r s' show ?thesis by blast
qed

lemmas write_defs = WriteDatasetRename_def WriteDatasetDelete_def WriteDatasetInit_def
  initDataset_def WriteVersionSave_def WriteVersionDelete_def hasWriteAccess_def DatasetRef_def
  NewTimestamp_def Publish_def save_def appendAt_def Append_def AddChild_def
  appendVersionSave_def appendTransformRun_def datasetInitOp_def branchInitOp_def
  emptyDsChange_def

text \<open>
  Claim C8 as stated fails: a rename whose save fails returns the error, has written
  nothing to the filesystem, and leaves a store that differs from the one it started with.
\<close>

theorem failed_save_no_rollback:
  "fst (WriteDatasetRename exEnvCipherFails (exBook []) ''Qmmovies'' ''films'')
     = Some (ErrOther ''cipher failed'')
   \<and> effects (snd (WriteDatasetRename exEnvCipherFails (exBook []) ''Qmmovies'' ''films''))
     = [Published ETDatasetRename
          (emptyDsChange\<lparr>dcInitID := ''Qmmovies'', dcPrettyName := ''films''\<rparr>)]
   \<and> store (snd (WriteDatasetRename exEnvCipherFails (exBook []) ''Qmmovies'' ''films''))
     \<noteq> store (exBook [])"
  by (simp add: write_defs exEnvCipherFails_def ex_defs store_defs model_defs Let_def)

text \<open>
  Claim C9. An event ought to be published only after the book has been saved. The
  rename and the delete of a dataset publish their event before they call \<open>save\<close>, as
  the trace of a successful call shows; when the save fails, the delete of a dataset, the
  init of a dataset and the delete of versions have published their event all the same.
  \<open>WriteVersionSave\<close> saves first and publishes nothing when the save reports an
  error; but \<open>save\<close> does not report the error of \<open>fs.Put\<close>, and so even
  \<open>WriteVersionSave\<close> publishes its event after a write that failed.
\<close>

theorem events_precede_persist:
  "effects (snd (WriteDatasetRename exEnv (exBook []) ''Qmmovies'' ''films''))
     = [Published ETDatasetRename
          (emptyDsChange\<lparr>dcInitID := ''Qmmovies'', dcPrettyName := ''films''\<rparr>),
        FsPut ''/mem/logbook.qfb'' ''ciphertext'' None]
   \<and> effects (snd (WriteDatasetDelete exEnv (exBook []) ''Qmmovies''))
     = [Published ETDatasetDeleteAll (emptyDsChange\<lparr>dcInitID := ''Qmmovies''\<rparr>),
        FsPut ''/mem/logbook.qfb'' ''ciphertext'' None]
   \<and> WriteDatasetDelete exEnvCipherFails (exBook []) ''Qmmovies''
     = (Some (ErrOther ''cipher failed''),
        (exBook [])\<lparr> store := [Log [exUserInit]
              [Log [exDatasetInit ''Qmalice'', emptyOp OpTypeRemove DatasetModel]
                 [Log [exBranchInit ''Qmalice''] []]]],
           clock := 1,
           effects := [Published ETDatasetDeleteAll (emptyDsChange\<lparr>dcInitID := ''Qmmovies''\<rparr>)] \<rparr>)
   \<and> fst (WriteDatasetInit exEnvCipherFails (exBookWith []) ''books'')
     = (''Qmbooks'', Some (ErrOther ''cipher failed''))
   \<and> effects (snd (WriteDatasetInit exEnvCipherFails (exBookWith []) ''books''))
     = [Published ETDatasetNameInit
          (emptyDsChange\<lparr>dcInitID := ''Qmbooks'', dcUsername := ''alice'',
             dcProfileID := ''key-alice'', dcPrettyName := ''books''\<rparr>)]
   \<and> WriteVersionDelete exEnvCipherFails
         (exBook [versionSaveOp (exDataset ''/ipfs/Qa'' []) (exCommit []),
                  versionSaveOp (exDataset ''/ipfs/Qb'' []) (exCommit [])]) ''Qmmovies'' 1
     = (Some (ErrOther ''cipher failed''),
        (exBook [versionSaveOp (exDataset ''/ipfs/Qa'' []) (exCommit []),
                 versionSaveOp (exDataset ''/ipfs/Qb'' []) (exCommit []), versionDeleteOp 1])
          \<lparr> effects := [Published ETDatasetCommitChange
               (emptyDsChange\<lparr>dcInitID := ''Qmmovies'', dcTopIndex := 1,
                  dcHeadRef := ''/ipfs/Qa'',
                  dcInfo := Some (versionInfoFromOp emptyRef
                     (versionSaveOp (exDataset ''/ipfs/Qa'' []) (exCommit [])))\<rparr>)] \<rparr>)
   \<and> fst (WriteVersionSave exEnvCipherFails (exBook []) ''Qmmovies'' (exDataset ''/ipfs/Qa'' []) None)
     = Some (ErrOther ''cipher failed'')
   \<and> effects (snd (WriteVersionSave exEnvCipherFails (exBook []) ''Qmmovies''
                      (exDataset ''/ipfs/Qa'' []) None))
     = []
   \<and> fst (WriteVersionSave exEnvPutFails (exBook []) ''Qmmovies'' (exDataset ''/ipfs/Qa'' []) None)
     = None
   \<and> effects (snd (WriteVersionSave exEnvPutFails (exBook []) ''Qmmovies''
                      (exDataset ''/ipfs/Qa'' []) None))
     = [FsPut ''/mem/logbook.qfb'' ''ciphertext'' (Some (ErrOther ''disk full'')),
        Published ETDatasetCommitChange
          (emptyDsChange\<lparr>dcInitID := ''Qmmovies'', dcTopIndex := 1, dcHeadRef := ''/ipfs/Qa'',
             dcInfo := Some (versionInfoFromOp emptyRef
                ((emptyOp OpTypeInit CommitModel)\<lparr>Ref := ''/ipfs/Qa''\<rparr>))\<rparr>)]"
  by (simp add: write_defs exEnvCipherFails_def exEnvPutFails_def ex_defs store_defs model_defs Let_def
      logSize_def branchToVersionInfos_def stepOp_def finishInfos_def commitOpRunID_def versionSaveOp_def
      versionDeleteOp_def versionInfoFromOp_def wrap64_def)


subsection \<open>Initialising a dataset under an existing name\<close>







end
